theory Spec2Isabelle
  imports Complex_Main "HOL-Library.AList"
begin

section \<open>Go values and errors\<close>

text \<open>
  The repository is Go. A Go function returns values and may panic; both are written out.
  An \<open>error\<close> value is either a plain message (\<open>errors.New\<close>, or \<open>fmt.Errorf\<close> without
  \<open>%w\<close>), a wrapped error (\<open>fmt.Errorf("prefix: %w", cause)\<close>) or the repository's own
  \<open>ErrInvalidType\<close>.
\<close>

datatype error =
    ErrorString string
  | WrapError string error
  | ErrInvalidType string

text \<open>The text \<open>err.Error()\<close> prints.\<close>

fun Error :: "error \<Rightarrow> string" where
  "Error (ErrorString s) = s"
| "Error (WrapError prefix cause) = prefix @ '': '' @ Error cause"
| "Error (ErrInvalidType t) = ''invalid type provided: '' @ t"

text \<open>The chain \<open>errors.Unwrap\<close> walks: the error itself and everything it wraps.\<close>

fun unwrap_chain :: "error \<Rightarrow> error list" where
  "unwrap_chain (WrapError prefix cause) = WrapError prefix cause # unwrap_chain cause"
| "unwrap_chain e = [e]"

text \<open>A call that does not return a value either panics or returns an error.\<close>

datatype fault = Panicked string | Returned error

type_synonym 'a result = "fault + 'a"

text \<open>
  A \<open>float64\<close> as far as the code uses it: it is only compared with \<open><\<close> and \<open>>\<close>, and a
  comparison with NaN is false.
\<close>

datatype float64 = Float real | PosInf | NegInf | NaN

fun float_less :: "float64 \<Rightarrow> float64 \<Rightarrow> bool" where
  "float_less NaN _ = False"
| "float_less _ NaN = False"
| "float_less (Float a) (Float b) = (a < b)"
| "float_less (Float a) PosInf = True"
| "float_less (Float a) NegInf = False"
| "float_less PosInf _ = False"
| "float_less NegInf NegInf = False"
| "float_less NegInf _ = True"

text \<open>
  A value held in an \<open>interface{}\<close>, with the dynamic types the type assertions of
  \<open>Parameter.Validate\<close> tell apart; \<open>GoOther\<close> stands for every other dynamic type.
\<close>

datatype go_value =
    GoNil
  | GoString string
  | GoFloat64 float64
  | GoInt int
  | GoBool bool
  | GoSlice "go_value list"
  | GoOther string

text \<open>
  What the code stores in a \<open>map[string]interface{}\<close> schema and what ends up in the JSON
  document: strings, integers, booleans, lists and nested maps. A Go map has no order and
  no duplicate keys; it is an association list with distinct keys, written to with
  \<open>AList.update\<close> and read with \<open>map_of\<close>.
\<close>

datatype jvalue =
    JNull
  | JString string
  | JInt int
  | JBool bool
  | JArray "jvalue list"
  | JObject "(string \<times> jvalue) list"

type_synonym schema = "(string \<times> jvalue) list"

section \<open>Types as \<open>reflect\<close> shows them\<close>

text \<open>The kinds of \<open>reflect.Kind\<close> that have no element type the code looks at.\<close>

datatype kind =
    KBool | KInt | KInt8 | KInt16 | KInt32 | KInt64
  | KUint | KUint8 | KUint16 | KUint32 | KUint64 | KUintptr
  | KFloat32 | KFloat64 | KComplex64 | KComplex128
  | KString | KChan | KFunc | KUnsafePointer

text \<open>
  A struct type of the program may have a method \<open>Time() time.Time\<close> (on the type or on its
  pointer). The code calls it on a new zero value; \<open>TimeMethod s\<close> says that the call
  returns a time that \<open>UTC().Format(time.RFC3339)\<close> prints as \<open>s\<close>, \<open>TimeMethodPanics r\<close>
  that it panics with the value \<open>r\<close>.
\<close>

datatype time_method = NoTimeMethod | TimeMethod string | TimeMethodPanics string

text \<open>
  A \<open>reflect.Type\<close>: the kind, the element type of slices, arrays, pointers and maps, and
  for a struct its name (\<open>t.String()\<close>), its \<open>Time\<close> method and its fields in declaration
  order. A field has its Go name, its struct tag (the pairs of key and value that
  \<open>Tag.Get\<close> reads) and its type. Types are finite trees: a type that mentions itself is
  left out (the code would not return on one).
\<close>

datatype go_type =
    Scalar kind
  | SliceOf go_type
  | ArrayOf go_type
  | PtrTo go_type
  | MapOf go_type
  | InterfaceType
  | StructType string time_method "field list"
and field =
    Field (field_Name: string) (field_Tag: "(string \<times> string) list") (field_Type: go_type)

text \<open>
  The argument \<open>v interface{}\<close> of the schema functions: the \<open>nil\<close> interface, a nil pointer
  of type \<open>*T\<close>, or any other value of a type \<open>T\<close> (a non-nil pointer has a type
  \<open>PtrTo T\<close>). The code reads nothing of it but \<open>reflect.TypeOf(v)\<close>.
\<close>

datatype iface = NilInterface | NilPointer go_type | Value go_type

fun TypeOf :: "iface \<Rightarrow> go_type option" where
  "TypeOf NilInterface = None"
| "TypeOf (NilPointer t) = Some (PtrTo t)"
| "TypeOf (Value t) = Some t"

section \<open>The data of the API description\<close>

record ValidationRule =
  rule_Type :: string
  rule_Value :: go_value
  rule_Message :: string

record Content =
  con_Schema :: schema

record Example =
  ex_Summary :: string
  ex_Description :: string
  ex_Value :: jvalue
  ex_ExternalValue :: string

text \<open>
  A map with no entry stands for the \<open>nil\<close> map as well, \<open>JNull\<close> for a \<open>nil\<close> interface and
  the empty list for a \<open>nil\<close> slice.
\<close>

record Parameter =
  par_Name :: string
  par_In :: string
  par_Description :: string
  par_Required :: bool
  par_Deprecated :: bool
  par_AllowEmptyValue :: bool
  par_Style :: string
  par_Explode :: bool
  par_Schema :: schema
  par_Example :: jvalue
  par_Examples :: "(string \<times> Example) list"
  par_Content :: "(string \<times> Content) list"
  par_Validations :: "ValidationRule list"

record OpenAPIInfo =
  info_Title :: string
  info_Version :: string
  info_Description :: string

record OpenAPIServer =
  srv_URL :: string
  srv_Description :: string

record ExternalDocumentation =
  ed_Description :: string
  ed_URL :: string

record Tag =
  tag_Name :: string
  tag_Description :: string
  tag_ExternalDocs :: "ExternalDocumentation option"

record OAuthFlow =
  flow_AuthorizationURL :: string
  flow_TokenURL :: string
  flow_RefreshURL :: string
  flow_Scopes :: "(string \<times> string) list"

record OAuthFlows =
  flows_Implicit :: "OAuthFlow option"
  flows_Password :: "OAuthFlow option"
  flows_ClientCredentials :: "OAuthFlow option"
  flows_AuthorizationCode :: "OAuthFlow option"

record SecurityScheme =
  sec_Type :: string
  sec_Description :: string
  sec_Name :: string
  sec_In :: string
  sec_Scheme :: string
  sec_BearerFormat :: string
  sec_Flows :: "OAuthFlows option"
  sec_OpenIDConnectURL :: string

record Header =
  hdr_Description :: string
  hdr_Required :: bool
  hdr_Deprecated :: bool
  hdr_Schema :: schema

record RequestBody =
  rb_Content :: "(string \<times> Content) list"

record Response =
  resp_Description :: string
  resp_Content :: "(string \<times> Content) list"

text \<open>A security requirement \<open>map[string][]string\<close>: scheme names with their scopes.\<close>

type_synonym security_requirement = "(string \<times> string list) list"

record Operation =
  op_Summary :: string
  op_Description :: string
  op_OperationID :: string
  op_Tags :: "string list"
  op_Parameters :: "Parameter list"
  op_RequestBody :: "RequestBody option"
  op_Responses :: "(string \<times> Response) list"
  op_Deprecated :: bool
  op_Security :: "security_requirement list"
  op_Servers :: "OpenAPIServer list"
  op_ExternalDocs :: "ExternalDocumentation option"

record PathItem =
  Get :: "Operation option"
  Post :: "Operation option"
  Put :: "Operation option"
  Delete :: "Operation option"
  Patch :: "Operation option"

record Components =
  comp_Schemas :: schema
  comp_SecuritySchemes :: "(string \<times> SecurityScheme) list"
  comp_Parameters :: "(string \<times> Parameter) list"
  comp_RequestBodies :: "(string \<times> RequestBody) list"
  comp_Responses :: "(string \<times> Response) list"
  comp_Headers :: "(string \<times> Header) list"
  comp_Examples :: "(string \<times> Example) list"

record OpenAPIDoc =
  doc_OpenAPI :: string
  doc_Info :: OpenAPIInfo
  doc_Servers :: "OpenAPIServer list"
  doc_Paths :: "(string \<times> PathItem) list"
  doc_Components :: "Components option"
  doc_Security :: "security_requirement list"
  doc_Tags :: "Tag list"
  doc_ExternalDocs :: "ExternalDocumentation option"

text \<open>
  A handler is a function of the program; only whether one is set matters to the code
  modelled here, so a handler is known by a name.
\<close>

type_synonym handler = string

record APIDefinition =
  Method :: string
  Path :: string
  OperationID :: string
  Summary :: string
  Description :: string
  Tags :: "string list"
  Request :: iface
  Response :: iface
  Params :: "Parameter list"
  Handler :: "handler option"
  NativeHandler :: "handler option"
  Deprecated :: bool
  Security :: "security_requirement list"
  ExternalDocs :: "ExternalDocumentation option"
  Examples :: "(string \<times> Example) list"
  Servers :: "OpenAPIServer list"

text \<open>
  The gin engine, as far as the registrar uses it: the routes handed to \<open>engine.Handle\<close>,
  each a method and a full path.
\<close>

type_synonym gin_engine = "(string \<times> string) list"

record APIRouter =
  engine :: gin_engine
  definitions :: "APIDefinition list"
  basePath :: string
  title :: string
  version :: string
  description :: string
  swaggerDoc :: "string option"
  generated :: bool
  securitySchemes :: "(string \<times> SecurityScheme) list"
  globalSecurity :: "security_requirement list"

section \<open>The library functions the code calls\<close>

text \<open>
  The functions of the Go standard library that the code calls and that are not part of
  the repository. They are parameters of the model:
  \<^item> \<open>ParseFloat s\<close> is \<open>strconv.ParseFloat(s, 64)\<close>, \<open>None\<close> when it returns an error;
  \<^item> \<open>MatchString pat s\<close> is \<open>regexp.MatchString(pat, s)\<close>, \<open>None\<close> when the pattern does
    not compile;
  \<^item> \<open>ParseRequestURI s\<close> says whether \<open>url.ParseRequestURI(s)\<close> succeeds;
  \<^item> \<open>Sprint_v v\<close> is \<open>fmt.Sprintf("%v", v)\<close>;
  \<^item> \<open>Sprintf0 f\<close> is \<open>fmt.Sprintf(f)\<close>, the format \<open>f\<close> expanded with no operands;
  \<^item> \<open>ToUpper\<close> and \<open>ToLower\<close> are \<open>strings.ToUpper\<close> and \<open>strings.ToLower\<close>;
  \<^item> \<open>TypeString t\<close> is \<open>t.String()\<close> of a \<open>reflect.Type\<close>;
  \<^item> \<open>MarshalIndent doc\<close> is \<open>json.MarshalIndent(doc, "", "  ")\<close>, the bytes or an error;
  \<^item> \<open>Handle_panic routes method path\<close> is the value \<open>engine.Handle(method, path, handler)\<close>
    of gin panics with on an engine that holds \<open>routes\<close> (gin panics on a route it cannot
    add), \<open>None\<close> when it returns.
\<close>

record golib =
  ParseFloat :: "string \<Rightarrow> float64 option"
  MatchString :: "string \<Rightarrow> string \<Rightarrow> bool option"
  ParseRequestURI :: "string \<Rightarrow> bool"
  Sprint_v :: "go_value \<Rightarrow> string"
  Sprintf0 :: "string \<Rightarrow> string"
  ToUpper :: "string \<Rightarrow> string"
  ToLower :: "string \<Rightarrow> string"
  TypeString :: "go_type \<Rightarrow> string"
  MarshalIndent :: "OpenAPIDoc \<Rightarrow> error + string"
  Handle_panic :: "gin_engine \<Rightarrow> string \<Rightarrow> string \<Rightarrow> string option"

text \<open>\<open>fmt.Errorf(format)\<close> with no operands: the format is expanded, nothing is wrapped.\<close>

definition Errorf0 :: "golib \<Rightarrow> string \<Rightarrow> error" where
  "Errorf0 lib format = ErrorString (Sprintf0 lib format)"

text \<open>\<open>strings.Contains(s, sep)\<close> for a separator of one byte.\<close>

definition Contains :: "string \<Rightarrow> char \<Rightarrow> bool" where
  "Contains s c = (c \<in> set s)"

text \<open>
  \<open>strings.Split(s, sep)\<close> for a separator of one byte: the pieces between the separators,
  never an empty list.
\<close>

fun Split :: "string \<Rightarrow> char \<Rightarrow> string list" where
  "Split [] sep = [[]]"
| "Split (c # cs) sep =
     (if c = sep then [] # Split cs sep
      else (case Split cs sep of
              piece # pieces \<Rightarrow> (c # piece) # pieces
            | [] \<Rightarrow> [[c]]))"

text \<open>\<open>field.Tag.Get(key)\<close>: the value of the key, the empty string when it is absent.\<close>

definition Tag_Get :: "(string \<times> string) list \<Rightarrow> string \<Rightarrow> string" where
  "Tag_Get tag key = (case map_of tag key of Some v \<Rightarrow> v | None \<Rightarrow> '''')"

section \<open>Parameter.Validate\<close>

text \<open>
  One pass of the body of the loop \<open>for _, rule := range p.Validations\<close>:
  \<open>Some e\<close> when the body returns the error \<open>e\<close>, \<open>None\<close> when it falls through to the next
  rule. A rule type with no \<open>case\<close> in the \<open>switch\<close> falls through.
\<close>

definition check_rule :: "golib \<Rightarrow> string \<Rightarrow> ValidationRule \<Rightarrow> error option" where
  "check_rule lib strValue rule =
    (if rule_Type rule = ''min'' then
       (case rule_Value rule of
          GoFloat64 minVal \<Rightarrow>
            (case ParseFloat lib strValue of
               Some numVal \<Rightarrow>
                 if float_less numVal minVal then Some (Errorf0 lib (rule_Message rule)) else None
             | None \<Rightarrow> None)
        | GoInt minLen \<Rightarrow>
            if int (length strValue) < minLen then Some (Errorf0 lib (rule_Message rule)) else None
        | _ \<Rightarrow> None)
     else if rule_Type rule = ''max'' then
       (case rule_Value rule of
          GoFloat64 maxVal \<Rightarrow>
            (case ParseFloat lib strValue of
               Some numVal \<Rightarrow>
                 if float_less maxVal numVal then Some (Errorf0 lib (rule_Message rule)) else None
             | None \<Rightarrow> None)
        | GoInt maxLen \<Rightarrow>
            if int (length strValue) > maxLen then Some (Errorf0 lib (rule_Message rule)) else None
        | _ \<Rightarrow> None)
     else if rule_Type rule = ''pattern'' then
       (case rule_Value rule of
          GoString pattern \<Rightarrow>
            (case MatchString lib pattern strValue of
               Some True \<Rightarrow> None
             | _ \<Rightarrow> Some (Errorf0 lib (rule_Message rule)))
        | _ \<Rightarrow> None)
     else if rule_Type rule = ''enum'' then
       (case rule_Value rule of
          GoSlice values \<Rightarrow>
            if list_ex (\<lambda>v. Sprint_v lib v = strValue) values then None
            else Some (Errorf0 lib (rule_Message rule))
        | _ \<Rightarrow> None)
     else if rule_Type rule = ''email'' then
       (if \<not> Contains strValue (CHR ''@'') \<or> \<not> Contains strValue (CHR ''.'')
        then Some (Errorf0 lib (rule_Message rule)) else None)
     else if rule_Type rule = ''url'' then
       (if \<not> ParseRequestURI lib strValue then Some (Errorf0 lib (rule_Message rule)) else None)
     else None)"

fun check_rules :: "golib \<Rightarrow> string \<Rightarrow> ValidationRule list \<Rightarrow> error option" where
  "check_rules lib strValue [] = None"
| "check_rules lib strValue (rule # rules) =
     (case check_rule lib strValue rule of
        Some e \<Rightarrow> Some e
      | None \<Rightarrow> check_rules lib strValue rules)"

text \<open>
  \<open>Parameter.Validate\<close>: \<open>None\<close> is the \<open>nil\<close> error. The \<open>%s\<close> of the first two messages is
  filled with the parameter's name.
\<close>

definition Validate :: "golib \<Rightarrow> Parameter \<Rightarrow> go_value \<Rightarrow> error option" where
  "Validate lib p v =
    (if v = GoNil then
       (if par_Required p
        then Some (ErrorString (''parameter '' @ par_Name p @ '' is required''))
        else None)
     else
       let strValue = (case v of GoString s \<Rightarrow> s | _ \<Rightarrow> Sprint_v lib v) in
       if par_Required p \<and> strValue = ''''
         then Some (ErrorString (''parameter '' @ par_Name p @ '' is required''))
       else if strValue = '''' \<and> \<not> par_Required p then None
       else check_rules lib strValue (par_Validations p))"

section \<open>Schemas from struct types\<close>

definition empty_object_schema :: schema where
  "empty_object_schema = [(''type'', JString ''object''), (''properties'', JObject [])]"

text \<open>
  The part of the loop body of \<open>SchemaFromStruct\<close> that reads the \<open>json\<close> tag: the name is
  the piece before the first comma, and the field is required unless one of the other
  pieces is \<open>omitempty\<close>.
\<close>

definition json_tag_name :: "string \<Rightarrow> string" where
  "json_tag_name jsonTag =
    (if Contains jsonTag (CHR '','')
     then (case Split jsonTag (CHR '','') of part # parts \<Rightarrow> part | [] \<Rightarrow> jsonTag)
     else jsonTag)"

definition json_tag_required :: "string \<Rightarrow> bool" where
  "json_tag_required jsonTag =
    (if Contains jsonTag (CHR '','')
     then foldl (\<lambda>isRequired opt. if opt = ''omitempty'' then False else isRequired)
            True (tl (Split jsonTag (CHR '','')))
     else True)"

text \<open>The part that reads the \<open>validate\<close> tag: a piece \<open>required\<close> makes the field required.\<close>

definition validate_tag_required :: "string \<Rightarrow> bool \<Rightarrow> bool" where
  "validate_tag_required validationTag isRequired =
    (if validationTag \<noteq> '''' \<and> list_ex (\<lambda>v. v = ''required'') (Split validationTag (CHR '',''))
     then True else isRequired)"

text \<open>The \<open>doc\<close>, \<open>example\<close> and \<open>format\<close> tags are copied into the field's schema.\<close>

definition annotate :: "(string \<times> string) list \<Rightarrow> schema \<Rightarrow> schema" where
  "annotate tag fieldSchema =
    (let s1 = (if Tag_Get tag ''doc'' \<noteq> ''''
               then AList.update ''description'' (JString (Tag_Get tag ''doc'')) fieldSchema
               else fieldSchema);
         s2 = (if Tag_Get tag ''example'' \<noteq> ''''
               then AList.update ''example'' (JString (Tag_Get tag ''example'')) s1
               else s1)
     in if Tag_Get tag ''format'' \<noteq> ''''
        then AList.update ''format'' (JString (Tag_Get tag ''format'')) s2
        else s2)"

text \<open>The schema \<open>SchemaFromStruct\<close> builds after its loop.\<close>

definition object_schema :: "schema \<Rightarrow> string list \<Rightarrow> schema" where
  "object_schema props required =
    (let schema = [(''type'', JString ''object''), (''properties'', JObject props)]
     in if length required > 0
        then AList.update ''required'' (JArray (map JString required)) schema
        else schema)"

text \<open>
  \<open>createSchemaFromGoType\<close>, and the loop of \<open>SchemaFromStruct\<close> over the fields of a struct
  type with the map \<open>props\<close> and the list \<open>required\<close> it fills (\<open>struct_fields\<close>).
  \<open>now\<close> is what \<open>time.Now().UTC().Format(time.RFC3339)\<close> prints during the call: the
  code reads the clock at every field of type \<open>time.Time\<close>, and the readings of one call
  are taken to fall in the same second.
  A \<open>reflect.Type\<close> of a field is never \<open>nil\<close>, so the tests \<open>t == nil\<close> and
  \<open>elemType == nil\<close> have no branch here, and a schema that was returned without an error
  is never \<open>nil\<close>. For a struct, \<open>SchemaFromStruct(reflect.New(t).Interface())\<close> gets a
  pointer to the struct type and runs its loop over the fields of \<open>t\<close>.
\<close>

fun createSchemaFromGoType :: "golib \<Rightarrow> string \<Rightarrow> go_type \<Rightarrow> schema result"
  and struct_fields :: "golib \<Rightarrow> string \<Rightarrow> field list \<Rightarrow> schema \<Rightarrow> string list \<Rightarrow> schema result"
where
  "createSchemaFromGoType lib now (Scalar k) =
    (if k = KString then Inr [(''type'', JString ''string'')]
     else if k \<in> {KInt, KInt8, KInt16, KInt32}
       then Inr [(''type'', JString ''integer''), (''format'', JString ''int32'')]
     else if k = KInt64
       then Inr [(''type'', JString ''integer''), (''format'', JString ''int64'')]
     else if k \<in> {KUint, KUint8, KUint16, KUint32}
       then Inr [(''type'', JString ''integer''), (''format'', JString ''int32''),
                 (''minimum'', JInt 0)]
     else if k = KUint64
       then Inr [(''type'', JString ''integer''), (''format'', JString ''int64''),
                 (''minimum'', JInt 0)]
     else if k = KFloat32
       then Inr [(''type'', JString ''number''), (''format'', JString ''float'')]
     else if k = KFloat64
       then Inr [(''type'', JString ''number''), (''format'', JString ''double'')]
     else if k = KBool then Inr [(''type'', JString ''boolean'')]
     else Inr [(''type'', JString ''string'')])"
| "createSchemaFromGoType lib now (SliceOf elemType) =
    (if elemType = Scalar KUint8
     then Inr [(''type'', JString ''string''), (''format'', JString ''byte'')]
     else (case createSchemaFromGoType lib now elemType of
             Inl (Panicked r) \<Rightarrow> Inl (Panicked r)
           | Inl (Returned err) \<Rightarrow>
               Inl (Returned (WrapError ''failed to create schema for array element'' err))
           | Inr elemSchema \<Rightarrow>
               Inr [(''type'', JString ''array''), (''items'', JObject elemSchema)]))"
| "createSchemaFromGoType lib now (ArrayOf elemType) =
    (case createSchemaFromGoType lib now elemType of
       Inl (Panicked r) \<Rightarrow> Inl (Panicked r)
     | Inl (Returned err) \<Rightarrow>
         Inl (Returned (WrapError ''failed to create schema for array element'' err))
     | Inr elemSchema \<Rightarrow>
         Inr [(''type'', JString ''array''), (''items'', JObject elemSchema)])"
| "createSchemaFromGoType lib now (StructType name tm flds) =
    (if name = ''time.Time''
     then Inr [(''type'', JString ''string''), (''format'', JString ''date-time''),
               (''example'', JString now)]
     else (case tm of
             TimeMethod s \<Rightarrow>
               Inr [(''type'', JString ''string''), (''format'', JString ''date-time''),
                    (''example'', JString s)]
           | TimeMethodPanics r \<Rightarrow> Inl (Panicked r)
           | NoTimeMethod \<Rightarrow>
               (case struct_fields lib now flds [] [] of
                  Inl (Panicked r) \<Rightarrow> Inl (Panicked r)
                | Inl (Returned err) \<Rightarrow>
                    Inl (Returned (WrapError (''failed to create schema for struct '' @ name) err))
                | Inr schema \<Rightarrow> Inr schema)))"
| "createSchemaFromGoType lib now (PtrTo elemType) = createSchemaFromGoType lib now elemType"
| "createSchemaFromGoType lib now InterfaceType =
    Inr [(''type'', JString ''object''), (''additionalProperties'', JBool True)]"
| "createSchemaFromGoType lib now (MapOf valueType) =
    (case createSchemaFromGoType lib now valueType of
       Inl (Panicked r) \<Rightarrow> Inl (Panicked r)
     | Inl (Returned err) \<Rightarrow>
         Inl (Returned (WrapError ''failed to create schema for map value type'' err))
     | Inr valueSchema \<Rightarrow>
         Inr [(''type'', JString ''object''), (''additionalProperties'', JObject valueSchema)])"
| "struct_fields lib now [] props required = Inr (object_schema props required)"
| "struct_fields lib now (Field fname tag ftype # flds) props required =
    (let jsonTag = Tag_Get tag ''json'' in
     if jsonTag = '''' \<or> jsonTag = ''-'' then struct_fields lib now flds props required
     else
       let isRequired = validate_tag_required (Tag_Get tag ''validate'') (json_tag_required jsonTag)
       in (case createSchemaFromGoType lib now ftype of
             Inl (Panicked r) \<Rightarrow> Inl (Panicked r)
           | Inl (Returned err) \<Rightarrow>
               Inl (Returned (WrapError (''failed to create schema for field '' @ fname) err))
           | Inr fieldSchema \<Rightarrow>
               struct_fields lib now flds
                 (AList.update (json_tag_name jsonTag) (JObject (annotate tag fieldSchema)) props)
                 (if isRequired then required @ [json_tag_name jsonTag] else required)))"

text \<open>\<open>t.Elem()\<close> when the kind is \<open>Ptr\<close>, as both schema functions start.\<close>

fun deref :: "go_type \<Rightarrow> go_type" where
  "deref (PtrTo t) = t"
| "deref t = t"

fun is_struct :: "go_type \<Rightarrow> bool" where
  "is_struct (StructType name tm flds) = True"
| "is_struct t = False"

definition SchemaFromStruct :: "golib \<Rightarrow> string \<Rightarrow> iface \<Rightarrow> schema result" where
  "SchemaFromStruct lib now v =
    (case TypeOf v of
       None \<Rightarrow> Inr empty_object_schema
     | Some t \<Rightarrow>
         (case deref t of
            StructType name tm flds \<Rightarrow> struct_fields lib now flds [] []
          | t' \<Rightarrow> Inl (Returned (ErrorString
                       (''input must be a struct type, got '' @ TypeString lib t')))))"

text \<open>
  \<open>SafeSchemaFromStruct\<close>: the deferred \<open>recover\<close> turns a panic into an error, so the
  function returns either a schema or an error.
\<close>

definition SafeSchemaFromStruct :: "golib \<Rightarrow> string \<Rightarrow> iface \<Rightarrow> error + schema" where
  "SafeSchemaFromStruct lib now v =
    (case TypeOf v of
       None \<Rightarrow> Inr empty_object_schema
     | Some t \<Rightarrow>
         if \<not> is_struct (deref t) then Inl (ErrInvalidType (TypeString lib (deref t)))
         else (case SchemaFromStruct lib now v of
                 Inl (Panicked r) \<Rightarrow> Inl (ErrorString (''panic in schema generation: '' @ r))
               | Inl (Returned err) \<Rightarrow> Inl (WrapError ''failed to generate schema'' err)
               | Inr schema \<Rightarrow> Inr schema))"

subsection \<open>What a struct type shows to the outside\<close>

text \<open>
  The notions the statement about \<open>SchemaFromStruct\<close> is made of, written from the
  conventions of the \<open>json\<close> and \<open>validate\<close> tags and not from the loop: a field is
  externally visible unless it has no \<open>json\<close> tag or the tag \<open>-\<close>; the tag carries a name
  when the text before its first comma is not empty, and that text is then the field's
  external name (without one the Go name of the field is what JSON shows); the field is
  marked \<open>omitempty\<close> when that word is among the options after the name; the \<open>validate\<close>
  tag has the required marker when \<open>required\<close> is one of its comma-separated entries.
\<close>

definition json_tag :: "field \<Rightarrow> string" where
  "json_tag f = Tag_Get (field_Tag f) ''json''"

definition externally_visible :: "field \<Rightarrow> bool" where
  "externally_visible f = (json_tag f \<noteq> '''' \<and> json_tag f \<noteq> ''-'')"

definition json_name :: "field \<Rightarrow> string" where
  "json_name f = takeWhile (\<lambda>c. c \<noteq> CHR '','') (json_tag f)"

definition carries_json_name :: "field \<Rightarrow> bool" where
  "carries_json_name f = (externally_visible f \<longrightarrow> json_name f \<noteq> [])"

definition external_name :: "field \<Rightarrow> string" where
  "external_name f = (if json_name f = [] then field_Name f else json_name f)"

definition marked_omitempty :: "field \<Rightarrow> bool" where
  "marked_omitempty f = (''omitempty'' \<in> set (tl (Split (json_tag f) (CHR '',''))))"

definition required_marker :: "field \<Rightarrow> bool" where
  "required_marker f =
    (''required'' \<in> set (Split (Tag_Get (field_Tag f) ''validate'') (CHR '','')))"

definition visible_names :: "field list \<Rightarrow> string set" where
  "visible_names flds = set (map external_name (filter externally_visible flds))"

definition marked_required :: "field \<Rightarrow> bool" where
  "marked_required f = (if marked_omitempty f then required_marker f else True)"

definition required_names :: "field list \<Rightarrow> string list" where
  "required_names flds =
    map external_name (filter (\<lambda>f. externally_visible f \<and> marked_required f) flds)"

text \<open>
  No \<open>Time()\<close> method that the walk over a type calls panics. The walk calls the method of
  a struct that is not \<open>time.Time\<close>, and visits the fields that are externally visible.
\<close>

fun time_methods_return :: "go_type \<Rightarrow> bool"
  and time_methods_return_fields :: "field list \<Rightarrow> bool"
where
  "time_methods_return (Scalar k) = True"
| "time_methods_return (SliceOf t) = time_methods_return t"
| "time_methods_return (ArrayOf t) = time_methods_return t"
| "time_methods_return (PtrTo t) = time_methods_return t"
| "time_methods_return (MapOf t) = time_methods_return t"
| "time_methods_return InterfaceType = True"
| "time_methods_return (StructType name tm flds) =
    (name = ''time.Time'' \<or>
     (case tm of
        TimeMethod s \<Rightarrow> True
      | TimeMethodPanics r \<Rightarrow> False
      | NoTimeMethod \<Rightarrow> time_methods_return_fields flds))"
| "time_methods_return_fields [] = True"
| "time_methods_return_fields (Field fname tag ftype # flds) =
    ((Tag_Get tag ''json'' = '''' \<or> Tag_Get tag ''json'' = ''-'' \<or> time_methods_return ftype)
     \<and> time_methods_return_fields flds)"

text \<open>The struct \<open>User\<close> of the repository's tests.\<close>

definition User_fields :: "field list" where
  "User_fields =
    [Field ''ID'' [(''json'', ''id''), (''validate'', ''required'')] (Scalar KInt64),
     Field ''Username'' [(''json'', ''username''), (''validate'', ''required,min=3,max=20'')]
       (Scalar KString),
     Field ''Email'' [(''json'', ''email''), (''validate'', ''required,email'')] (Scalar KString),
     Field ''Age'' [(''json'', ''age,omitempty''), (''validate'', ''min=0,max=150'')] (Scalar KInt),
     Field ''IsActive'' [(''json'', ''is_active'')] (Scalar KBool),
     Field ''CreatedAt'' [(''json'', ''created_at'')] (StructType ''time.Time'' NoTimeMethod []),
     Field ''Tags'' [(''json'', ''tags,omitempty'')] (SliceOf (Scalar KString))]"

definition User :: go_type where
  "User = StructType ''api.User'' NoTimeMethod User_fields"

subsection \<open>Where the clock is read\<close>

text \<open>
  The walk over a type reads the clock when it reaches a struct named \<open>time.Time\<close>; it
  visits the fields that are neither untagged nor tagged \<open>-\<close> of a struct that has no
  \<open>Time()\<close> method. At the root, \<open>SchemaFromStruct\<close> runs its loop over the fields whatever
  the struct is called.
\<close>

fun reads_clock :: "go_type \<Rightarrow> bool"
  and reads_clock_fields :: "field list \<Rightarrow> bool"
where
  "reads_clock (Scalar k) = False"
| "reads_clock (SliceOf t) = reads_clock t"
| "reads_clock (ArrayOf t) = reads_clock t"
| "reads_clock (PtrTo t) = reads_clock t"
| "reads_clock (MapOf t) = reads_clock t"
| "reads_clock InterfaceType = False"
| "reads_clock (StructType name tm flds) =
    (name = ''time.Time'' \<or> (tm = NoTimeMethod \<and> reads_clock_fields flds))"
| "reads_clock_fields [] = False"
| "reads_clock_fields (Field fname tag ftype # flds) =
    ((Tag_Get tag ''json'' \<noteq> '''' \<and> Tag_Get tag ''json'' \<noteq> ''-'' \<and> reads_clock ftype)
     \<or> reads_clock_fields flds)"

definition reads_clock_value :: "iface \<Rightarrow> bool" where
  "reads_clock_value v =
    (case TypeOf v of
       None \<Rightarrow> False
     | Some t \<Rightarrow> (case deref t of
                   StructType name tm flds \<Rightarrow> reads_clock_fields flds
                 | _ \<Rightarrow> False))"

text \<open>No request or response type of a registered definition makes the walk read the clock.\<close>

definition clock_free :: "APIRouter \<Rightarrow> bool" where
  "clock_free r =
    list_all (\<lambda>d. \<not> reads_clock_value (Request d) \<and> \<not> reads_clock_value (Response d))
      (definitions r)"

section \<open>The route registrar\<close>

definition NewAPIRouter :: "gin_engine \<Rightarrow> string \<Rightarrow> string \<Rightarrow> string \<Rightarrow> string \<Rightarrow> APIRouter" where
  "NewAPIRouter e bp t v d =
    \<lparr> engine = e, definitions = [], basePath = bp, title = t, version = v, description = d,
      swaggerDoc = None, generated = False, securitySchemes = [], globalSecurity = [] \<rparr>"

text \<open>\<open>NewAPIDefinition\<close> and the calls of the builder chain used below.\<close>

definition NewAPIDefinition :: "string \<Rightarrow> string \<Rightarrow> string \<Rightarrow> APIDefinition" where
  "NewAPIDefinition method path summary =
    \<lparr> Method = method, Path = path, OperationID = '''', Summary = summary, Description = '''',
      Tags = [], Request = NilInterface, Response = NilInterface, Params = [],
      Handler = None, NativeHandler = None, Deprecated = False, Security = [],
      ExternalDocs = None, Examples = [], Servers = [] \<rparr>"

definition WithOperationID :: "string \<Rightarrow> APIDefinition \<Rightarrow> APIDefinition" where
  "WithOperationID operationID api = api\<lparr>OperationID := operationID\<rparr>"

definition WithTags :: "string list \<Rightarrow> APIDefinition \<Rightarrow> APIDefinition" where
  "WithTags tags api = api\<lparr>Tags := tags\<rparr>"

definition WithResponse :: "iface \<Rightarrow> APIDefinition \<Rightarrow> APIDefinition" where
  "WithResponse resp api = api\<lparr>Response := resp\<rparr>"

definition WithHandler :: "handler \<Rightarrow> APIDefinition \<Rightarrow> APIDefinition" where
  "WithHandler h api = api\<lparr>Handler := Some h\<rparr>"

definition WithNativeHandler :: "handler \<Rightarrow> APIDefinition \<Rightarrow> APIDefinition" where
  "WithNativeHandler h api = api\<lparr>NativeHandler := Some h\<rparr>"

definition WithSecurity :: "string \<Rightarrow> string list \<Rightarrow> APIDefinition \<Rightarrow> APIDefinition" where
  "WithSecurity scheme scopes api = api\<lparr>Security := Security api @ [[(scheme, scopes)]]\<rparr>"

text \<open>
  \<open>http.MethodGet\<close>, \<open>http.MethodPost\<close>, \<open>http.MethodPut\<close>, \<open>http.MethodDelete\<close> and
  \<open>http.MethodPatch\<close>.
\<close>

definition supported_methods :: "string list" where
  "supported_methods = [''GET'', ''POST'', ''PUT'', ''DELETE'', ''PATCH'']"

text \<open>
  \<open>Register\<close>. The argument is a pointer, \<open>None\<close> when it is \<open>nil\<close>. The result is \<open>Inr ()\<close>
  for the \<open>nil\<close> error. The closure handed to the engine runs at request time and is not
  part of the registration; the engine receives the upper-case method and the full path,
  and the definition is appended as it was given.
\<close>

definition Register :: "golib \<Rightarrow> APIRouter \<Rightarrow> APIDefinition option \<Rightarrow> unit result \<times> APIRouter" where
  "Register lib r api =
    (case api of
       None \<Rightarrow> (Inl (Returned (ErrorString ''api definition cannot be nil'')), r)
     | Some d \<Rightarrow>
         if NativeHandler d = None \<and> Handler d = None
           then (Inl (Returned (ErrorString (''handler cannot be nil for path: '' @ Path d))), r)
         else if Path d = ''''
           then (Inl (Returned (ErrorString ''path cannot be empty'')), r)
         else
           let method = ToUpper lib (Method d) in
           if method \<notin> set supported_methods
             then (Inl (Returned (ErrorString (''unsupported HTTP method: '' @ Method d))), r)
           else
             let fullPath = basePath r @ Path d in
             (case Handle_panic lib (engine r) method fullPath of
                Some p \<Rightarrow> (Inl (Panicked p), r)
              | None \<Rightarrow>
                  (Inr (),
                   r\<lparr> engine := engine r @ [(method, fullPath)],
                      definitions := definitions r @ [d] \<rparr>)))"

subsection \<open>Operation identifiers\<close>

text \<open>
  The three regular expressions of \<open>generateOperationID\<close>, on the bytes of the path.
  \<open>\{[^}]+\}\<close> replaced by nothing: at a \<open>{\<close>, the longest run of bytes other than \<open>}\<close> is
  taken; if it is not empty and a \<open>}\<close> follows, the whole is dropped, else the \<open>{\<close> stays.
\<close>

function remove_path_params :: "string \<Rightarrow> string" where
  "remove_path_params [] = []"
| "remove_path_params (c # cs) =
     (if c = CHR ''{''
         \<and> takeWhile (\<lambda>x. x \<noteq> CHR ''}'') cs \<noteq> []
         \<and> dropWhile (\<lambda>x. x \<noteq> CHR ''}'') cs \<noteq> []
      then remove_path_params (tl (dropWhile (\<lambda>x. x \<noteq> CHR ''}'') cs))
      else c # remove_path_params cs)"
  by pat_completeness auto
termination
  by (relation "measure length")
     (auto simp: less_Suc_eq_le intro: le_trans[OF diff_le_self length_dropWhile_le])

definition is_alnum :: "char \<Rightarrow> bool" where
  "is_alnum c =
    (let n = (of_char c :: nat)
     in (97 \<le> n \<and> n \<le> 122) \<or> (65 \<le> n \<and> n \<le> 90) \<or> (48 \<le> n \<and> n \<le> 57))"

text \<open>
  \<open>[^a-zA-Z0-9]\<close> replaced by \<open>_\<close>. Go replaces a character of several bytes by one \<open>_\<close>, this
  function by one \<open>_\<close> for each of its bytes; the next step makes one \<open>_\<close> of either.
\<close>

definition replace_special :: "string \<Rightarrow> string" where
  "replace_special s = map (\<lambda>c. if is_alnum c then c else CHR ''_'') s"

text \<open>\<open>_+\<close> replaced by \<open>_\<close>.\<close>

fun collapse_underscores :: "string \<Rightarrow> string" where
  "collapse_underscores (c # d # cs) =
     (if c = CHR ''_'' \<and> d = CHR ''_'' then collapse_underscores (d # cs)
      else c # collapse_underscores (d # cs))"
| "collapse_underscores cs = cs"

text \<open>\<open>strings.Trim(path, "_")\<close>.\<close>

definition Trim_underscores :: "string \<Rightarrow> string" where
  "Trim_underscores s =
    rev (dropWhile (\<lambda>c. c = CHR ''_'') (rev (dropWhile (\<lambda>c. c = CHR ''_'') s)))"

definition generateOperationID :: "golib \<Rightarrow> string \<Rightarrow> Operation \<Rightarrow> string" where
  "generateOperationID lib path op =
    (let path = remove_path_params path;
         path = replace_special path;
         path = collapse_underscores path;
         path = Trim_underscores path;
         prefix = (case op_Tags op of tag # tags \<Rightarrow> ToLower lib tag | [] \<Rightarrow> ''operation'')
     in prefix @ ''_'' @ path)"

subsection \<open>Building the document\<close>

definition zero_PathItem :: PathItem where
  "zero_PathItem = \<lparr> Get = None, Post = None, Put = None, Delete = None, Patch = None \<rparr>"

text \<open>
  The body of the loop of \<open>BuildOpenAPI\<close> up to the \<open>switch\<close>: the operation of one
  definition, or the error of the schema synthesis, wrapped.
\<close>

definition build_operation :: "golib \<Rightarrow> string \<Rightarrow> APIDefinition \<Rightarrow> error + Operation" where
  "build_operation lib now apiDef =
    (let operation =
           \<lparr> op_Summary = Summary apiDef, op_Description = Description apiDef,
             op_OperationID = '''', op_Tags = Tags apiDef, op_Parameters = [],
             op_RequestBody = None, op_Responses = [], op_Deprecated = False,
             op_Security = [], op_Servers = [], op_ExternalDocs = None \<rparr>;
         operation = (if length (Params apiDef) > 0
                      then operation\<lparr>op_Parameters := Params apiDef\<rparr> else operation)
     in
     (case (if Request apiDef \<noteq> NilInterface
            then (case SafeSchemaFromStruct lib now (Request apiDef) of
                    Inl err \<Rightarrow> Inl (WrapError ''failed to generate request schema'' err)
                  | Inr schema \<Rightarrow>
                      Inr (operation\<lparr>op_RequestBody :=
                             Some \<lparr> rb_Content =
                                      [(''application/json'', \<lparr> con_Schema = schema \<rparr>)] \<rparr>\<rparr>))
            else Inr operation) of
        Inl err \<Rightarrow> Inl err
      | Inr operation \<Rightarrow>
          (case (if Response apiDef \<noteq> NilInterface
                 then (case SafeSchemaFromStruct lib now (Response apiDef) of
                         Inl err \<Rightarrow> Inl (WrapError ''failed to generate response schema'' err)
                       | Inr schema \<Rightarrow>
                           Inr (operation\<lparr>op_Responses :=
                                  AList.update ''200''
                                    \<lparr> resp_Description = ''Success'',
                                      resp_Content =
                                        [(''application/json'', \<lparr> con_Schema = schema \<rparr>)] \<rparr>
                                    (op_Responses operation)\<rparr>))
                 else Inr operation) of
             Inl err \<Rightarrow> Inl err
           | Inr operation \<Rightarrow>
               Inr (operation\<lparr>op_Responses :=
                      AList.update ''500''
                        \<lparr> resp_Description = ''Internal Server Error'', resp_Content = [] \<rparr>
                        (AList.update ''400''
                           \<lparr> resp_Description = ''Bad Request'', resp_Content = [] \<rparr>
                           (op_Responses operation))\<rparr>))))"

text \<open>The \<open>switch apiDef.Method\<close>: the method is compared as it was registered.\<close>

definition set_operation :: "string \<Rightarrow> Operation \<Rightarrow> PathItem \<Rightarrow> PathItem" where
  "set_operation method operation pathItem =
    (if method = ''GET'' then pathItem\<lparr>Get := Some operation\<rparr>
     else if method = ''POST'' then pathItem\<lparr>Post := Some operation\<rparr>
     else if method = ''PUT'' then pathItem\<lparr>Put := Some operation\<rparr>
     else if method = ''DELETE'' then pathItem\<lparr>Delete := Some operation\<rparr>
     else if method = ''PATCH'' then pathItem\<lparr>Patch := Some operation\<rparr>
     else pathItem)"

text \<open>The loop of \<open>BuildOpenAPI\<close> over the definitions, with the map \<open>doc.Paths\<close> it fills.\<close>

fun build_paths ::
  "golib \<Rightarrow> string \<Rightarrow> APIDefinition list \<Rightarrow> (string \<times> PathItem) list
     \<Rightarrow> error + (string \<times> PathItem) list" where
  "build_paths lib now [] paths = Inr paths"
| "build_paths lib now (apiDef # defs) paths =
     (let pathItem = (case map_of paths (Path apiDef) of
                        Some item \<Rightarrow> item | None \<Rightarrow> zero_PathItem)
      in case build_operation lib now apiDef of
           Inl err \<Rightarrow> Inl err
         | Inr operation \<Rightarrow>
             build_paths lib now defs
               (AList.update (Path apiDef) (set_operation (Method apiDef) operation pathItem)
                  paths))"

text \<open>The document \<open>BuildOpenAPI\<close> starts from, before its loop.\<close>

definition initial_doc :: "APIRouter \<Rightarrow> OpenAPIDoc" where
  "initial_doc r =
    (let doc =
           \<lparr> doc_OpenAPI = ''3.0.0'',
             doc_Info = \<lparr> info_Title = title r, info_Version = version r,
                          info_Description = description r \<rparr>,
             doc_Servers = [\<lparr> srv_URL = basePath r, srv_Description = ''API Server'' \<rparr>],
             doc_Paths = [],
             doc_Components =
               Some \<lparr> comp_Schemas = [], comp_SecuritySchemes = securitySchemes r,
                      comp_Parameters = [], comp_RequestBodies = [], comp_Responses = [],
                      comp_Headers = [], comp_Examples = [] \<rparr>,
             doc_Security = [], doc_Tags = [], doc_ExternalDocs = None \<rparr>
     in if length (globalSecurity r) > 0
        then doc\<lparr>doc_Security := globalSecurity r\<rparr> else doc)"

definition BuildOpenAPI :: "golib \<Rightarrow> string \<Rightarrow> APIRouter \<Rightarrow> error + OpenAPIDoc" where
  "BuildOpenAPI lib now r =
    (let doc = initial_doc r
     in case build_paths lib now (definitions r) (doc_Paths doc) of
          Inl err \<Rightarrow> Inl err
        | Inr paths \<Rightarrow> Inr (doc\<lparr>doc_Paths := paths\<rparr>))"

subsection \<open>GenerateSwagger\<close>

text \<open>
  The body of the loop \<open>for _, op := range operations\<close> for an operation that is not \<open>nil\<close>.
  The map of responses is never \<open>nil\<close> here.
\<close>

definition add_default_responses :: "golib \<Rightarrow> string \<Rightarrow> Operation \<Rightarrow> Operation" where
  "add_default_responses lib path op =
    (let rs = op_Responses op;
         rs = (if map_of rs ''400'' = None
               then AList.update ''400''
                      \<lparr> resp_Description = ''Bad Request - Invalid input parameters'',
                        resp_Content = [] \<rparr> rs
               else rs);
         rs = (if map_of rs ''401'' = None \<and> length (op_Security op) > 0
               then AList.update ''401''
                      \<lparr> resp_Description = ''Unauthorized - Authentication required'',
                        resp_Content = [] \<rparr> rs
               else rs);
         rs = (if map_of rs ''403'' = None \<and> length (op_Security op) > 0
               then AList.update ''403''
                      \<lparr> resp_Description = ''Forbidden - Insufficient permissions'',
                        resp_Content = [] \<rparr> rs
               else rs);
         rs = (if map_of rs ''500'' = None
               then AList.update ''500''
                      \<lparr> resp_Description = ''Internal Server Error'', resp_Content = [] \<rparr> rs
               else rs);
         op = op\<lparr>op_Responses := rs\<rparr>
     in if op_OperationID op = ''''
        then op\<lparr>op_OperationID := generateOperationID lib path op\<rparr>
        else op)"

definition finish_path_item :: "golib \<Rightarrow> string \<Rightarrow> PathItem \<Rightarrow> PathItem" where
  "finish_path_item lib path pathItem =
    \<lparr> Get = map_option (add_default_responses lib path) (Get pathItem),
      Post = map_option (add_default_responses lib path) (Post pathItem),
      Put = map_option (add_default_responses lib path) (Put pathItem),
      Delete = map_option (add_default_responses lib path) (Delete pathItem),
      Patch = map_option (add_default_responses lib path) (Patch pathItem) \<rparr>"

text \<open>
  The part of \<open>GenerateSwagger\<close> between the check of the paths and the marshalling: the
  default server, the components, and the loop over \<open>doc.Paths\<close>. The loop treats every
  path on its own, so the order Go visits the map in does not show.
\<close>

definition finish_doc :: "golib \<Rightarrow> string \<Rightarrow> OpenAPIDoc \<Rightarrow> OpenAPIDoc" where
  "finish_doc lib base doc =
    (let doc = (if length (doc_Servers doc) = 0
                then doc\<lparr>doc_Servers :=
                       [\<lparr> srv_URL = base, srv_Description = ''Default server'' \<rparr>]\<rparr>
                else doc);
         doc = (if doc_Components doc = None
                then doc\<lparr>doc_Components :=
                       Some \<lparr> comp_Schemas = [], comp_SecuritySchemes = [],
                              comp_Parameters = [], comp_RequestBodies = [],
                              comp_Responses = [], comp_Headers = [],
                              comp_Examples = [] \<rparr>\<rparr>
                else doc)
     in doc\<lparr>doc_Paths :=
              map (\<lambda>(path, pathItem). (path, finish_path_item lib path pathItem))
                (doc_Paths doc)\<rparr>)"

text \<open>\<open>GenerateSwagger\<close>: the result and the registrar after the call.\<close>

definition GenerateSwagger :: "golib \<Rightarrow> string \<Rightarrow> APIRouter \<Rightarrow> (error + OpenAPIDoc) \<times> APIRouter" where
  "GenerateSwagger lib now r =
    (if title r = '''' then (Inl (ErrorString ''API title is required''), r)
     else if version r = '''' then (Inl (ErrorString ''API version is required''), r)
     else
       (case BuildOpenAPI lib now r of
          Inl err \<Rightarrow> (Inl (WrapError ''failed to build OpenAPI document'' err), r)
        | Inr doc \<Rightarrow>
            if length (doc_Paths doc) = 0 then (Inl (ErrorString ''no API paths defined''), r)
            else
              let doc = finish_doc lib (basePath r) doc
              in (case MarshalIndent lib doc of
                    Inl err \<Rightarrow> (Inl (WrapError ''failed to marshal OpenAPI document'' err), r)
                  | Inr data \<Rightarrow> (Inr doc, r\<lparr>swaggerDoc := Some data, generated := True\<rparr>))))"

text \<open>
  What a call of \<open>GenerateSwagger\<close> computes before it touches the registrar: the error it
  returns, or the document with its bytes.
\<close>

definition outcome :: "golib \<Rightarrow> string \<Rightarrow> APIRouter \<Rightarrow> (error + OpenAPIDoc \<times> string)" where
  "outcome lib now r =
    (if title r = '''' then Inl (ErrorString ''API title is required'')
     else if version r = '''' then Inl (ErrorString ''API version is required'')
     else
       (case BuildOpenAPI lib now r of
          Inl err \<Rightarrow> Inl (WrapError ''failed to build OpenAPI document'' err)
        | Inr doc \<Rightarrow>
            if length (doc_Paths doc) = 0 then Inl (ErrorString ''no API paths defined'')
            else
              (case MarshalIndent lib (finish_doc lib (basePath r) doc) of
                    Inl err \<Rightarrow> Inl (WrapError ''failed to marshal OpenAPI document'' err)
                  | Inr data \<Rightarrow> Inr (finish_doc lib (basePath r) doc, data))))"


section \<open>A reference instance of the library, for evaluation at concrete inputs\<close>

text \<open>
  The general theorems below hold for every \<open>golib\<close>. To evaluate the code at concrete
  inputs a concrete instance is needed; \<open>ref_lib\<close> agrees with Go on the inputs it is used
  on:
  \<^item> \<open>ref_ParseFloat\<close> reads an optional sign followed by decimal digits and rejects every
    other string (right for plain integers of up to 15 digits and for strings that are no
    number at all; fractions, exponents, \<open>Inf\<close> and \<open>NaN\<close> are left out);
  \<^item> \<open>ref_Sprintf0\<close> copies the format, turns \<open>%%\<close> into \<open>%\<close>, a \<open>%\<close> before a verb
    character \<open>c\<close> into \<open>%!c(MISSING)\<close> and a final \<open>%\<close> into \<open>%!(NOVERB)\<close> (flags, widths
    and argument indexes are left out);
  \<^item> \<open>ascii_upper\<close> and \<open>ascii_lower\<close> change the case of ASCII letters (Go also maps
    letters outside ASCII);
  \<^item> \<open>ref_MarshalIndent\<close> prints the document as \<open>encoding/json\<close> does for printable ASCII
    strings: struct fields in declaration order under their \<open>json\<close> names, \<open>omitempty\<close>
    fields left out when empty, map keys sorted, two spaces of indentation (a \<open>nil\<close> slice
    in a field without \<open>omitempty\<close>, which Go prints as \<open>null\<close>, is printed as \<open>[]\<close>);
  \<^item> patterns, request URIs and \<open>%v\<close> of values other than strings are not interpreted.
\<close>

definition is_digit :: "char \<Rightarrow> bool" where
  "is_digit c = (of_char c \<ge> (48::nat) \<and> of_char c \<le> (57::nat))"

definition digits_value :: "string \<Rightarrow> int" where
  "digits_value ds = foldl (\<lambda>acc c. 10 * acc + (int (of_char c) - 48)) 0 ds"

definition ref_ParseFloat :: "string \<Rightarrow> float64 option" where
  "ref_ParseFloat s =
    (let (neg, ds) =
       (case s of
          c # rest \<Rightarrow> if c = CHR ''-'' then (True, rest)
                      else if c = CHR ''+'' then (False, rest) else (False, s)
        | [] \<Rightarrow> (False, s))
     in if ds \<noteq> [] \<and> list_all is_digit ds
        then Some (Float (real_of_int (if neg then - digits_value ds else digits_value ds)))
        else None)"

fun ref_Sprintf0 :: "string \<Rightarrow> string" where
  "ref_Sprintf0 [] = []"
| "ref_Sprintf0 [c] = (if c = CHR ''%'' then ''%!(NOVERB)'' else [c])"
| "ref_Sprintf0 (c # d # rest) =
     (if c = CHR ''%'' then
        (if d = CHR ''%'' then CHR ''%'' # ref_Sprintf0 rest
         else ''%!'' @ [d] @ ''(MISSING)'' @ ref_Sprintf0 rest)
      else c # ref_Sprintf0 (d # rest))"

definition ascii_upper_char :: "char \<Rightarrow> char" where
  "ascii_upper_char c =
    (if (97::nat) \<le> of_char c \<and> of_char c \<le> (122::nat)
     then char_of (of_char c - (32::nat)) else c)"

definition ascii_lower_char :: "char \<Rightarrow> char" where
  "ascii_lower_char c =
    (if (65::nat) \<le> of_char c \<and> of_char c \<le> (90::nat)
     then char_of (of_char c + (32::nat)) else c)"

definition ascii_upper :: "string \<Rightarrow> string" where
  "ascii_upper s = map ascii_upper_char s"

definition ascii_lower :: "string \<Rightarrow> string" where
  "ascii_lower s = map ascii_lower_char s"

definition ref_Sprint_v :: "go_value \<Rightarrow> string" where
  "ref_Sprint_v v = (case v of GoString s \<Rightarrow> s | GoOther s \<Rightarrow> s | _ \<Rightarrow> ''?'')"

text \<open>
  \<open>t.String()\<close> for unnamed types: the name of a struct, of a basic kind, and \<open>*T\<close> and
  \<open>[]T\<close>; the other types are not printed.
\<close>

definition kind_name :: "kind \<Rightarrow> string" where
  "kind_name k =
    (case k of
       KBool \<Rightarrow> ''bool'' | KInt \<Rightarrow> ''int'' | KInt8 \<Rightarrow> ''int8'' | KInt16 \<Rightarrow> ''int16''
     | KInt32 \<Rightarrow> ''int32'' | KInt64 \<Rightarrow> ''int64'' | KUint \<Rightarrow> ''uint'' | KUint8 \<Rightarrow> ''uint8''
     | KUint16 \<Rightarrow> ''uint16'' | KUint32 \<Rightarrow> ''uint32'' | KUint64 \<Rightarrow> ''uint64''
     | KUintptr \<Rightarrow> ''uintptr'' | KFloat32 \<Rightarrow> ''float32'' | KFloat64 \<Rightarrow> ''float64''
     | KComplex64 \<Rightarrow> ''complex64'' | KComplex128 \<Rightarrow> ''complex128'' | KString \<Rightarrow> ''string''
     | KUnsafePointer \<Rightarrow> ''unsafe.Pointer'' | _ \<Rightarrow> ''?'')"

fun ref_TypeString :: "go_type \<Rightarrow> string" where
  "ref_TypeString (Scalar k) = kind_name k"
| "ref_TypeString (StructType name tm flds) = name"
| "ref_TypeString (PtrTo t) = ''*'' @ ref_TypeString t"
| "ref_TypeString (SliceOf t) = ''[]'' @ ref_TypeString t"
| "ref_TypeString t = ''?''"

text \<open>
  gin panics when the path does not begin with \<open>/\<close> and when the method and the path are
  already registered (its other route conflicts are left out).
\<close>

definition ref_Handle_panic :: "gin_engine \<Rightarrow> string \<Rightarrow> string \<Rightarrow> string option" where
  "ref_Handle_panic routes method path =
    (if path = [] \<or> hd path \<noteq> CHR ''/'' then Some ''path must begin with /''
     else if (method, path) \<in> set routes
       then Some (''handlers are already registered for path '' @ path)
     else None)"

subsection \<open>Printing JSON\<close>

text \<open>Keys of a map are printed in the order of their bytes.\<close>

fun str_less :: "string \<Rightarrow> string \<Rightarrow> bool" where
  "str_less [] [] = False"
| "str_less [] (d # ds) = True"
| "str_less (c # cs) [] = False"
| "str_less (c # cs) (d # ds) =
     ((of_char c :: nat) < of_char d \<or> (c = d \<and> str_less cs ds))"

fun insert_key :: "string \<times> 'a \<Rightarrow> (string \<times> 'a) list \<Rightarrow> (string \<times> 'a) list" where
  "insert_key kv [] = [kv]"
| "insert_key kv (x # xs) =
     (if str_less (fst x) (fst kv) then x # insert_key kv xs else kv # x # xs)"

definition sort_keys :: "(string \<times> 'a) list \<Rightarrow> (string \<times> 'a) list" where
  "sort_keys kvs = foldr insert_key kvs []"

text \<open>A \<open>map[string]interface{}\<close> with its keys sorted at every level.\<close>

primrec sorted_json :: "jvalue \<Rightarrow> jvalue" where
  "sorted_json JNull = JNull"
| "sorted_json (JString s) = JString s"
| "sorted_json (JInt i) = JInt i"
| "sorted_json (JBool b) = JBool b"
| "sorted_json (JArray xs) = JArray (map sorted_json xs)"
| "sorted_json (JObject kvs) = JObject (sort_keys (map (map_prod id sorted_json) kvs))"

definition escape_char :: "char \<Rightarrow> string" where
  "escape_char c =
    (if c = CHR 0x22 then [CHR 0x5C, CHR 0x22]
     else if c = CHR 0x5C then [CHR 0x5C, CHR 0x5C]
     else if c = CHR ''<'' then CHR 0x5C # ''u003c''
     else if c = CHR ''>'' then CHR 0x5C # ''u003e''
     else if c = CHR ''&'' then CHR 0x5C # ''u0026''
     else [c])"

definition quote :: "string \<Rightarrow> string" where
  "quote s = CHR 0x22 # concat (map escape_char s) @ [CHR 0x22]"

function digits_of :: "nat \<Rightarrow> string" where
  "digits_of n = (if n < 10 then [char_of (48 + n)] else digits_of (n div 10) @ [char_of (48 + n mod 10)])"
  by pat_completeness auto
termination
  by (relation "measure id") auto

definition show_int :: "int \<Rightarrow> string" where
  "show_int i = (if i < 0 then CHR ''-'' # digits_of (nat (- i)) else digits_of (nat i))"

definition newline :: "nat \<Rightarrow> string" where
  "newline n = CHR 0x0A # concat (replicate n ''  '')"

fun join_commas :: "string list \<Rightarrow> string" where
  "join_commas [] = []"
| "join_commas [x] = x"
| "join_commas (x # y # ys) = x @ '','' @ join_commas (y # ys)"

fun print_json :: "nat \<Rightarrow> jvalue \<Rightarrow> string" where
  "print_json n JNull = ''null''"
| "print_json n (JString s) = quote s"
| "print_json n (JInt i) = show_int i"
| "print_json n (JBool b) = (if b then ''true'' else ''false'')"
| "print_json n (JArray xs) =
     (if xs = [] then ''[]''
      else ''['' @ join_commas (map (\<lambda>x. newline (Suc n) @ print_json (Suc n) x) xs)
           @ newline n @ '']'')"
| "print_json n (JObject kvs) =
     (if kvs = [] then ''{}''
      else ''{'' @ join_commas
                    (map (\<lambda>kv. newline (Suc n) @ quote (fst kv) @ '': ''
                              @ print_json (Suc n) (snd kv)) kvs)
           @ newline n @ ''}'')"

subsection \<open>The document as JSON\<close>

text \<open>A field with \<open>omitempty\<close>: left out when its value is empty.\<close>

definition omitempty :: "bool \<Rightarrow> string \<Rightarrow> jvalue \<Rightarrow> (string \<times> jvalue) list" where
  "omitempty is_empty key v = (if is_empty then [] else [(key, v)])"

definition json_map :: "('a \<Rightarrow> jvalue) \<Rightarrow> (string \<times> 'a) list \<Rightarrow> jvalue" where
  "json_map f m = JObject (sort_keys (map (map_prod id f) m))"

definition json_schema :: "schema \<Rightarrow> jvalue" where
  "json_schema s = sorted_json (JObject s)"

definition json_Content :: "Content \<Rightarrow> jvalue" where
  "json_Content c = JObject [(''schema'', json_schema (con_Schema c))]"

definition json_Example :: "Example \<Rightarrow> jvalue" where
  "json_Example e =
    JObject (omitempty (ex_Summary e = '''') ''summary'' (JString (ex_Summary e))
           @ omitempty (ex_Description e = '''') ''description'' (JString (ex_Description e))
           @ omitempty (ex_Value e = JNull) ''value'' (sorted_json (ex_Value e))
           @ omitempty (ex_ExternalValue e = '''') ''externalValue''
               (JString (ex_ExternalValue e)))"

definition json_Parameter :: "Parameter \<Rightarrow> jvalue" where
  "json_Parameter p =
    JObject ([(''name'', JString (par_Name p)), (''in'', JString (par_In p)),
              (''description'', JString (par_Description p)),
              (''required'', JBool (par_Required p))]
           @ omitempty (\<not> par_Deprecated p) ''deprecated'' (JBool True)
           @ omitempty (\<not> par_AllowEmptyValue p) ''allowEmptyValue'' (JBool True)
           @ omitempty (par_Style p = '''') ''style'' (JString (par_Style p))
           @ omitempty (\<not> par_Explode p) ''explode'' (JBool True)
           @ omitempty (par_Schema p = []) ''schema'' (json_schema (par_Schema p))
           @ omitempty (par_Example p = JNull) ''example'' (sorted_json (par_Example p))
           @ omitempty (par_Examples p = []) ''examples'' (json_map json_Example (par_Examples p))
           @ omitempty (par_Content p = []) ''content'' (json_map json_Content (par_Content p)))"

definition json_Server :: "OpenAPIServer \<Rightarrow> jvalue" where
  "json_Server s =
    JObject [(''url'', JString (srv_URL s)), (''description'', JString (srv_Description s))]"

definition json_ExternalDocs :: "ExternalDocumentation \<Rightarrow> jvalue" where
  "json_ExternalDocs d =
    JObject (omitempty (ed_Description d = '''') ''description'' (JString (ed_Description d))
           @ [(''url'', JString (ed_URL d))])"

definition json_optional :: "('a \<Rightarrow> jvalue) \<Rightarrow> string \<Rightarrow> 'a option \<Rightarrow> (string \<times> jvalue) list" where
  "json_optional f key v = (case v of None \<Rightarrow> [] | Some x \<Rightarrow> [(key, f x)])"

definition json_Security :: "security_requirement list \<Rightarrow> jvalue" where
  "json_Security reqs = JArray (map (json_map (\<lambda>scopes. JArray (map JString scopes))) reqs)"

definition json_Response :: "Response \<Rightarrow> jvalue" where
  "json_Response r =
    JObject ([(''description'', JString (resp_Description r))]
           @ omitempty (resp_Content r = []) ''content'' (json_map json_Content (resp_Content r)))"

definition json_RequestBody :: "RequestBody \<Rightarrow> jvalue" where
  "json_RequestBody b = JObject [(''content'', json_map json_Content (rb_Content b))]"

definition json_Operation :: "Operation \<Rightarrow> jvalue" where
  "json_Operation op =
    JObject ([(''summary'', JString (op_Summary op)),
              (''description'', JString (op_Description op))]
           @ omitempty (op_OperationID op = '''') ''operationId'' (JString (op_OperationID op))
           @ [(''tags'', JArray (map JString (op_Tags op)))]
           @ omitempty (op_Parameters op = []) ''parameters''
               (JArray (map json_Parameter (op_Parameters op)))
           @ json_optional json_RequestBody ''requestBody'' (op_RequestBody op)
           @ [(''responses'', json_map json_Response (op_Responses op))]
           @ omitempty (\<not> op_Deprecated op) ''deprecated'' (JBool True)
           @ omitempty (op_Security op = []) ''security'' (json_Security (op_Security op))
           @ omitempty (op_Servers op = []) ''servers'' (JArray (map json_Server (op_Servers op)))
           @ json_optional json_ExternalDocs ''externalDocs'' (op_ExternalDocs op))"

definition json_PathItem :: "PathItem \<Rightarrow> jvalue" where
  "json_PathItem item =
    JObject (json_optional json_Operation ''get'' (Get item)
           @ json_optional json_Operation ''post'' (Post item)
           @ json_optional json_Operation ''put'' (Put item)
           @ json_optional json_Operation ''delete'' (Delete item)
           @ json_optional json_Operation ''patch'' (Patch item))"

definition json_OAuthFlow :: "OAuthFlow \<Rightarrow> jvalue" where
  "json_OAuthFlow f =
    JObject (omitempty (flow_AuthorizationURL f = '''') ''authorizationUrl''
               (JString (flow_AuthorizationURL f))
           @ omitempty (flow_TokenURL f = '''') ''tokenUrl'' (JString (flow_TokenURL f))
           @ omitempty (flow_RefreshURL f = '''') ''refreshUrl'' (JString (flow_RefreshURL f))
           @ [(''scopes'', json_map JString (flow_Scopes f))])"

definition json_OAuthFlows :: "OAuthFlows \<Rightarrow> jvalue" where
  "json_OAuthFlows f =
    JObject (json_optional json_OAuthFlow ''implicit'' (flows_Implicit f)
           @ json_optional json_OAuthFlow ''password'' (flows_Password f)
           @ json_optional json_OAuthFlow ''clientCredentials'' (flows_ClientCredentials f)
           @ json_optional json_OAuthFlow ''authorizationCode'' (flows_AuthorizationCode f))"

definition json_SecurityScheme :: "SecurityScheme \<Rightarrow> jvalue" where
  "json_SecurityScheme s =
    JObject ([(''type'', JString (sec_Type s))]
           @ omitempty (sec_Description s = '''') ''description'' (JString (sec_Description s))
           @ omitempty (sec_Name s = '''') ''name'' (JString (sec_Name s))
           @ omitempty (sec_In s = '''') ''in'' (JString (sec_In s))
           @ omitempty (sec_Scheme s = '''') ''scheme'' (JString (sec_Scheme s))
           @ omitempty (sec_BearerFormat s = '''') ''bearerFormat'' (JString (sec_BearerFormat s))
           @ json_optional json_OAuthFlows ''flows'' (sec_Flows s)
           @ omitempty (sec_OpenIDConnectURL s = '''') ''openIdConnectUrl''
               (JString (sec_OpenIDConnectURL s)))"

definition json_Header :: "Header \<Rightarrow> jvalue" where
  "json_Header h =
    JObject (omitempty (hdr_Description h = '''') ''description'' (JString (hdr_Description h))
           @ omitempty (\<not> hdr_Required h) ''required'' (JBool True)
           @ omitempty (\<not> hdr_Deprecated h) ''deprecated'' (JBool True)
           @ omitempty (hdr_Schema h = []) ''schema'' (json_schema (hdr_Schema h)))"

definition json_Components :: "Components \<Rightarrow> jvalue" where
  "json_Components c =
    JObject (omitempty (comp_Schemas c = []) ''schemas'' (json_schema (comp_Schemas c))
           @ omitempty (comp_SecuritySchemes c = []) ''securitySchemes''
               (json_map json_SecurityScheme (comp_SecuritySchemes c))
           @ omitempty (comp_Parameters c = []) ''parameters''
               (json_map json_Parameter (comp_Parameters c))
           @ omitempty (comp_RequestBodies c = []) ''requestBodies''
               (json_map json_RequestBody (comp_RequestBodies c))
           @ omitempty (comp_Responses c = []) ''responses''
               (json_map json_Response (comp_Responses c))
           @ omitempty (comp_Headers c = []) ''headers'' (json_map json_Header (comp_Headers c))
           @ omitempty (comp_Examples c = []) ''examples''
               (json_map json_Example (comp_Examples c)))"

definition json_Tag :: "Tag \<Rightarrow> jvalue" where
  "json_Tag t =
    JObject ([(''name'', JString (tag_Name t))]
           @ omitempty (tag_Description t = '''') ''description'' (JString (tag_Description t))
           @ json_optional json_ExternalDocs ''externalDocs'' (tag_ExternalDocs t))"

definition json_OpenAPIDoc :: "OpenAPIDoc \<Rightarrow> jvalue" where
  "json_OpenAPIDoc doc =
    JObject ([(''openapi'', JString (doc_OpenAPI doc)),
              (''info'', JObject [(''title'', JString (info_Title (doc_Info doc))),
                                  (''version'', JString (info_Version (doc_Info doc))),
                                  (''description'', JString (info_Description (doc_Info doc)))]),
              (''servers'', JArray (map json_Server (doc_Servers doc))),
              (''paths'', json_map json_PathItem (doc_Paths doc))]
           @ json_optional json_Components ''components'' (doc_Components doc)
           @ omitempty (doc_Security doc = []) ''security'' (json_Security (doc_Security doc))
           @ omitempty (doc_Tags doc = []) ''tags'' (JArray (map json_Tag (doc_Tags doc)))
           @ json_optional json_ExternalDocs ''externalDocs'' (doc_ExternalDocs doc))"

definition ref_MarshalIndent :: "OpenAPIDoc \<Rightarrow> error + string" where
  "ref_MarshalIndent doc = Inr (print_json 0 (json_OpenAPIDoc doc))"

definition ref_lib :: golib where
  "ref_lib =
    \<lparr> ParseFloat = ref_ParseFloat,
      MatchString = (\<lambda>pat s. None),
      ParseRequestURI = (\<lambda>s. False),
      Sprint_v = ref_Sprint_v,
      Sprintf0 = ref_Sprintf0,
      ToUpper = ascii_upper,
      ToLower = ascii_lower,
      TypeString = ref_TypeString,
      MarshalIndent = ref_MarshalIndent,
      Handle_panic = ref_Handle_panic \<rparr>"

subsection \<open>Concrete inputs\<close>

definition zero_Parameter :: Parameter where
  "zero_Parameter =
    \<lparr> par_Name = '''', par_In = '''', par_Description = '''', par_Required = False,
      par_Deprecated = False, par_AllowEmptyValue = False, par_Style = '''',
      par_Explode = False, par_Schema = [], par_Example = JNull, par_Examples = [],
      par_Content = [], par_Validations = [] \<rparr>"

definition age_param :: Parameter where
  "age_param =
    zero_Parameter
      \<lparr> par_Name := ''age'', par_In := ''query'', par_Required := True,
        par_Validations :=
          [\<lparr> rule_Type = ''min'', rule_Value = GoFloat64 (Float 18),
             rule_Message = ''Age must be at least 18'' \<rparr>] \<rparr>"

text \<open>A registrar with nothing registered, as the repository's tests create it.\<close>

definition test_router :: APIRouter where
  "test_router = NewAPIRouter [] ''/api'' ''Test API'' ''1.0.0'' ''Test''"

text \<open>A definition with both a standard and a native handler.\<close>

definition both_handlers_def :: APIDefinition where
  "both_handlers_def =
    WithNativeHandler ''ginListUsers''
      (WithHandler ''listUsers'' (NewAPIDefinition ''GET'' ''/users'' ''List users''))"

text \<open>A definition that declares a security requirement.\<close>

definition secured_def :: APIDefinition where
  "secured_def =
    WithHandler ''adminHandler''
      (WithSecurity ''bearerAuth'' []
        (WithTags [''admin''] (NewAPIDefinition ''GET'' ''/admin'' ''Admin'')))"

text \<open>A definition with an explicit operation identifier.\<close>

definition identified_def :: APIDefinition where
  "identified_def =
    WithHandler ''listUsers''
      (WithOperationID ''listUsers''
        (WithTags [''users''] (NewAPIDefinition ''GET'' ''/users'' ''List users'')))"

text \<open>The same route with the method in lower and in upper case.\<close>

definition lower_case_def :: APIDefinition where
  "lower_case_def = WithHandler ''listUsers'' (NewAPIDefinition ''get'' ''/users'' ''List users'')"

definition upper_case_def :: APIDefinition where
  "upper_case_def = WithHandler ''listUsers'' (NewAPIDefinition ''GET'' ''/users'' ''List users'')"

text \<open>A definition whose response type has a field of type \<open>time.Time\<close>.\<close>

definition Event :: go_type where
  "Event = StructType ''api.Event'' NoTimeMethod
     [Field ''At'' [(''json'', ''at'')] (StructType ''time.Time'' NoTimeMethod [])]"

definition event_def :: APIDefinition where
  "event_def =
    WithHandler ''getEvent''
      (WithResponse (Value Event) (WithTags [''events''] (NewAPIDefinition ''GET'' ''/event'' ''Get'')))"

text \<open>A definition whose request is a string, which is no struct.\<close>

definition bad_request_def :: APIDefinition where
  "bad_request_def =
    (WithHandler ''create'' (NewAPIDefinition ''POST'' ''/users'' ''Create''))
       \<lparr>Request := Value (Scalar KString)\<rparr>"

text \<open>The registrar after \<open>Register\<close> of one definition on \<open>test_router\<close>.\<close>

definition registered :: "APIDefinition \<Rightarrow> APIRouter" where
  "registered d = snd (Register ref_lib test_router (Some d))"

text \<open>The definitions the repository's tests expect \<open>Register\<close> to refuse.\<close>

definition no_handler_def :: APIDefinition where
  "no_handler_def = NewAPIDefinition ''GET'' ''/test'' ''Test''"

definition empty_path_def :: APIDefinition where
  "empty_path_def = WithHandler ''h'' (NewAPIDefinition ''GET'' '''' ''Test'')"

definition bad_method_def :: APIDefinition where
  "bad_method_def = WithHandler ''h'' (NewAPIDefinition ''INVALID'' ''/test'' ''Test'')"

text \<open>The time of two calls, one second apart.\<close>

definition time0 :: string where
  "time0 = ''2026-11-03T10:00:00Z''"

definition time1 :: string where
  "time1 = ''2026-11-03T10:00:01Z''"

section \<open>Properties of parameter validation\<close>

lemma ref_ParseFloat_20: "ref_ParseFloat ''20'' = Some (Float 20)"
  by (simp add: ref_ParseFloat_def is_digit_def digits_value_def)

lemma ref_ParseFloat_15: "ref_ParseFloat ''15'' = Some (Float 15)"
  by (simp add: ref_ParseFloat_def is_digit_def digits_value_def)

lemma ref_ParseFloat_abc: "ref_ParseFloat ''abc'' = None"
  by (simp add: ref_ParseFloat_def is_digit_def)

text \<open>
  C3. A required parameter whose only rule is \<open>{Type: "min", Value: 18.0, Message: m}\<close>:
  the value \<open>"20"\<close> passes, the value \<open>"15"\<close> is rejected with the error \<open>fmt.Errorf(m)\<close>
  built from the rule's message, and the value \<open>"abc"\<close> passes, as does every other
  non-empty value that does not parse as a number: with a \<open>float64\<close> threshold the rule is
  skipped and the length of the value is never looked at. The three hypotheses on
  \<open>ParseFloat\<close> are what \<open>strconv.ParseFloat\<close> answers on the three strings.
\<close>

theorem Validate_min_float_threshold:
  assumes "par_Required p"
    and "par_Validations p =
          [\<lparr> rule_Type = ''min'', rule_Value = GoFloat64 (Float 18), rule_Message = m \<rparr>]"
    and "ParseFloat lib ''20'' = Some (Float 20)"
    and "ParseFloat lib ''15'' = Some (Float 15)"
    and "ParseFloat lib ''abc'' = None"
  shows "Validate lib p (GoString ''20'') = None
       \<and> Validate lib p (GoString ''15'') = Some (Errorf0 lib m)
       \<and> Validate lib p (GoString ''abc'') = None
       \<and> (\<forall>s. s \<noteq> [] \<and> ParseFloat lib s = None \<longrightarrow> Validate lib p (GoString s) = None)"
  using assms by (simp add: Validate_def check_rule_def)

theorem Validate_min_float_threshold_witness:
  "par_Required age_param
   \<and> ParseFloat ref_lib ''20'' = Some (Float 20)
   \<and> ParseFloat ref_lib ''15'' = Some (Float 15)
   \<and> ParseFloat ref_lib ''abc'' = None
   \<and> Validate ref_lib age_param (GoString ''20'') = None
   \<and> Validate ref_lib age_param (GoString ''15'') = Some (ErrorString ''Age must be at least 18'')
   \<and> Validate ref_lib age_param (GoString ''abc'') = None"
proof -
  have req: "par_Required age_param"
    by (simp add: age_param_def zero_Parameter_def)
  have rules: "par_Validations age_param =
      [\<lparr> rule_Type = ''min'', rule_Value = GoFloat64 (Float 18),
         rule_Message = ''Age must be at least 18'' \<rparr>]"
    by (simp add: age_param_def zero_Parameter_def)
  have p20: "ParseFloat ref_lib ''20'' = Some (Float 20)"
    by (simp add: ref_lib_def ref_ParseFloat_20)
  have p15: "ParseFloat ref_lib ''15'' = Some (Float 15)"
    by (simp add: ref_lib_def ref_ParseFloat_15)
  have pabc: "ParseFloat ref_lib ''abc'' = None"
    by (simp add: ref_lib_def ref_ParseFloat_abc)
  have msg: "Errorf0 ref_lib ''Age must be at least 18'' = ErrorString ''Age must be at least 18''"
    by (simp add: Errorf0_def ref_lib_def)
  from Validate_min_float_threshold [OF req rules p20 p15 pabc] req p20 p15 pabc msg
  show ?thesis by simp
qed

lemma check_rules_append:
  "check_rules lib s (rs1 @ rs2) =
     (case check_rules lib s rs1 of Some e \<Rightarrow> Some e | None \<Rightarrow> check_rules lib s rs2)"
  by (induction rs1) (auto split: option.splits)

lemma check_rule_required: "rule_Type r = ''required'' \<Longrightarrow> check_rule lib s r = None"
  by (simp add: check_rule_def)

text \<open>
  C10. A rule of type \<open>"required"\<close> in the list of validations has no effect: whatever the
  value, \<open>Validate\<close> answers the same with the rule (anywhere in the list) and without it.
  Whether a missing value is an error is decided by the flag \<open>Required\<close> alone: on \<open>nil\<close>
  and on the empty string the answer is the "is required" error when the flag is set and
  \<open>nil\<close> when it is not, whatever the rules are.
\<close>

theorem required_rule_no_effect:
  assumes "rule_Type r = ''required''"
  shows "Validate lib (p\<lparr>par_Validations := rs1 @ r # rs2\<rparr>) v
           = Validate lib (p\<lparr>par_Validations := rs1 @ rs2\<rparr>) v
       \<and> (v = GoNil \<or> v = GoString '''' \<longrightarrow>
            Validate lib (p\<lparr>par_Validations := rs1 @ r # rs2\<rparr>) v =
              (if par_Required p
               then Some (ErrorString (''parameter '' @ par_Name p @ '' is required''))
               else None))"
proof -
  have "check_rules lib s (rs1 @ r # rs2) = check_rules lib s (rs1 @ rs2)" for s
    using assms by (simp add: check_rules_append check_rule_required split: option.splits)
  then show ?thesis
    by (auto simp: Validate_def Let_def)
qed

theorem required_rule_no_effect_witness:
  "rule_Type \<lparr> rule_Type = ''required'', rule_Value = GoNil, rule_Message = ''needed'' \<rparr>
     = ''required''
   \<and> Validate ref_lib
       (age_param\<lparr>par_Validations :=
          [\<lparr> rule_Type = ''required'', rule_Value = GoNil, rule_Message = ''needed'' \<rparr>]\<rparr>)
       (GoString ''abc'') = None
   \<and> Validate ref_lib
       (age_param\<lparr>par_Validations :=
          [\<lparr> rule_Type = ''required'', rule_Value = GoNil, rule_Message = ''needed'' \<rparr>]\<rparr>)
       GoNil = Some (ErrorString ''parameter age is required'')"
  using required_rule_no_effect
    [where r = "\<lparr> rule_Type = ''required'', rule_Value = GoNil, rule_Message = ''needed'' \<rparr>"
       and lib = ref_lib and p = age_param and ?rs1.0 = "[]" and ?rs2.0 = "[]"
       and v = "GoString ''abc''"]
    required_rule_no_effect
    [where r = "\<lparr> rule_Type = ''required'', rule_Value = GoNil, rule_Message = ''needed'' \<rparr>"
       and lib = ref_lib and p = age_param and ?rs1.0 = "[]" and ?rs2.0 = "[]"
       and v = GoNil]
  by (simp add: Validate_def age_param_def zero_Parameter_def)

section \<open>Properties of schema synthesis\<close>

lemma Split_takeWhile: "\<exists>rest. Split s c = takeWhile (\<lambda>x. x \<noteq> c) s # rest"
  by (induction s) (auto split: list.splits)

lemma Split_no_sep: "c \<notin> set s \<Longrightarrow> Split s c = [s]"
  by (induction s) auto

lemma takeWhile_no_sep: "c \<notin> set s \<Longrightarrow> takeWhile (\<lambda>x. x \<noteq> c) s = s"
  by (induction s) auto

lemma json_tag_name_takeWhile: "json_tag_name s = takeWhile (\<lambda>x. x \<noteq> CHR '','') s"
  using Split_takeWhile[of s "CHR '',''"]
  by (auto simp: json_tag_name_def Contains_def takeWhile_no_sep split: list.splits)

lemma foldl_omitempty:
  "foldl (\<lambda>isRequired opt. if opt = ''omitempty'' then False else isRequired) b opts
     = (b \<and> ''omitempty'' \<notin> set opts)"
  by (induction opts arbitrary: b) auto

lemma json_tag_required_iff:
  "json_tag_required s = (''omitempty'' \<notin> set (tl (Split s (CHR '',''))))"
  by (auto simp: json_tag_required_def Contains_def foldl_omitempty Split_no_sep)

lemma validate_tag_required_iff:
  "validate_tag_required vt b = (''required'' \<in> set (Split vt (CHR '','')) \<or> b)"
  by (auto simp: validate_tag_required_def list_ex_iff)

lemma fst_set_update: "fst ` set (AList.update k v al) = insert k (fst ` set al)"
  using dom_update[of k v al] by (simp add: dom_map_of_conv_image_fst)

lemma struct_fields_skip:
  "\<not> externally_visible (Field fname tag ftype) \<Longrightarrow>
   struct_fields lib now (Field fname tag ftype # flds) props required
     = struct_fields lib now flds props required"
  by (auto simp: externally_visible_def json_tag_def Let_def)

lemma struct_fields_step:
  "externally_visible (Field fname tag ftype) \<Longrightarrow>
   createSchemaFromGoType lib now ftype = Inr fieldSchema \<Longrightarrow>
   struct_fields lib now (Field fname tag ftype # flds) props required
     = struct_fields lib now flds
         (AList.update (json_name (Field fname tag ftype)) (JObject (annotate tag fieldSchema)) props)
         (if marked_required (Field fname tag ftype)
          then required @ [json_name (Field fname tag ftype)] else required)"
  by (auto simp: externally_visible_def json_tag_def Let_def json_tag_name_takeWhile json_name_def
      marked_required_def marked_omitempty_def required_marker_def json_tag_required_iff
      validate_tag_required_iff)

text \<open>
  The walk over a type returns a schema when no \<open>Time()\<close> method panics, and the loop over
  the fields of a struct adds to \<open>props\<close> the names of the visible fields and to \<open>required\<close>,
  in order, the names of those that are required.
\<close>

lemma walk_total:
  "time_methods_return t \<Longrightarrow> \<exists>s. createSchemaFromGoType lib now t = Inr s"
  "time_methods_return_fields flds \<Longrightarrow>
     \<exists>props'. struct_fields lib now flds props required
                 = Inr (object_schema props'
                     (required @ map json_name
                        (filter (\<lambda>f. externally_visible f \<and> marked_required f) flds)))
              \<and> fst ` set props' = fst ` set props \<union> set (map json_name (filter externally_visible flds))"
proof (induction lib now t and lib now flds props required
       rule: createSchemaFromGoType_struct_fields.induct)
  case (9 lib now fname tag ftype flds props required)
  let ?f = "Field fname tag ftype"
  let ?listed = "\<lambda>f. externally_visible f \<and> marked_required f"
  show ?case
  proof (cases "externally_visible ?f")
    case False
    then have jt: "Tag_Get tag ''json'' = '''' \<or> Tag_Get tag ''json'' = ''-''"
      by (auto simp: externally_visible_def json_tag_def)
    have "time_methods_return_fields flds" using "9.prems" by simp
    from "9.IH"(1)[OF refl jt this] obtain props' where
      "struct_fields lib now flds props required
         = Inr (object_schema props' (required @ map json_name (filter ?listed flds)))"
      "fst ` set props' = fst ` set props \<union> set (map json_name (filter externally_visible flds))"
      by blast
    moreover have "filter ?listed (?f # flds) = filter ?listed flds"
      using False by simp
    moreover have "filter externally_visible (?f # flds) = filter externally_visible flds"
      using False by simp
    ultimately show ?thesis
      by (simp only: struct_fields_skip[OF False]) blast
  next
    case True
    then have jt: "\<not> (Tag_Get tag ''json'' = '''' \<or> Tag_Get tag ''json'' = ''-'')"
      by (auto simp: externally_visible_def json_tag_def)
    with "9.prems" have ok: "time_methods_return ftype" "time_methods_return_fields flds"
      by auto
    from "9.IH"(2)[OF refl jt refl ok(1)] obtain fieldSchema
      where fs: "createSchemaFromGoType lib now ftype = Inr fieldSchema" by blast
    define props1 where
      "props1 = AList.update (json_name ?f) (JObject (annotate tag fieldSchema)) props"
    define req1 where "req1 = (if marked_required ?f then required @ [json_name ?f] else required)"
    have isReq: "validate_tag_required (Tag_Get tag ''validate'')
                   (json_tag_required (Tag_Get tag ''json'')) = marked_required ?f"
      by (auto simp: marked_required_def marked_omitempty_def required_marker_def json_tag_def
          json_tag_required_iff validate_tag_required_iff)
    have nm: "json_tag_name (Tag_Get tag ''json'') = json_name ?f"
      by (simp add: json_tag_name_takeWhile json_name_def json_tag_def)
    from "9.IH"(3)[OF refl jt refl fs ok(2)]
    obtain props' where
      a: "struct_fields lib now flds props1 req1
         = Inr (object_schema props' (req1 @ map json_name (filter ?listed flds)))"
      and b: "fst ` set props'
         = fst ` set props1 \<union> set (map json_name (filter externally_visible flds))"
      unfolding props1_def req1_def isReq nm by blast
    have c: "req1 @ map json_name (filter ?listed flds)
          = required @ map json_name (filter ?listed (?f # flds))"
      using True by (simp add: req1_def)
    have d: "fst ` set props1 \<union> set (map json_name (filter externally_visible flds))
          = fst ` set props \<union> set (map json_name (filter externally_visible (?f # flds)))"
      using True by (auto simp: props1_def fst_set_update)
    have "struct_fields lib now (?f # flds) props required = struct_fields lib now flds props1 req1"
      unfolding props1_def req1_def by (rule struct_fields_step[OF True fs])
    with a b c d show ?thesis by metis
  qed
qed (auto split: time_method.splits)

lemma object_schema_lookup:
  "map_of (object_schema props required) ''type'' = Some (JString ''object'')"
  "map_of (object_schema props required) ''properties'' = Some (JObject props)"
  "map_of (object_schema props required) ''required''
     = (if required = [] then None else Some (JArray (map JString required)))"
  by (simp_all add: object_schema_def Let_def)

lemma carried_names:
  "list_all carries_json_name flds \<Longrightarrow>
   map json_name (filter (\<lambda>f. externally_visible f \<and> P f) flds)
     = map external_name (filter (\<lambda>f. externally_visible f \<and> P f) flds)"
  by (induction flds) (auto simp: carries_json_name_def external_name_def)

text \<open>
  C8. For a struct type whose visible fields all carry a JSON name (and whose walk meets
  no panicking \<open>Time()\<close> method), \<open>SchemaFromStruct\<close> returns an object schema whose
  \<open>properties\<close> have as keys exactly the external names of the fields that are neither
  untagged nor tagged \<open>-\<close>, and whose \<open>required\<close> list is, in declaration order, the names
  of the visible fields that are not marked \<open>omitempty\<close> or whose \<open>validate\<close> tag has the
  \<open>required\<close> marker; an empty list is left out of the schema.
\<close>

theorem SchemaFromStruct_properties_required:
  assumes "list_all carries_json_name flds"
    and "time_methods_return_fields flds"
  shows "\<exists>s props.
           SchemaFromStruct lib now (Value (StructType name tm flds)) = Inr s
         \<and> map_of s ''type'' = Some (JString ''object'')
         \<and> map_of s ''properties'' = Some (JObject props)
         \<and> fst ` set props = visible_names flds
         \<and> map_of s ''required''
             = (if required_names flds = [] then None
                else Some (JArray (map JString (required_names flds))))"
proof -
  from walk_total(2)[OF assms(2), of lib now "[]" "[]"] obtain props where
    run: "struct_fields lib now flds [] []
        = Inr (object_schema props
            (map json_name (filter (\<lambda>f. externally_visible f \<and> marked_required f) flds)))"
    and keys: "fst ` set props = set (map json_name (filter externally_visible flds))"
    by auto
  have req: "map json_name (filter (\<lambda>f. externally_visible f \<and> marked_required f) flds)
           = required_names flds"
    using carried_names[OF assms(1), of marked_required] by (simp add: required_names_def)
  have vis: "map json_name (filter externally_visible flds)
           = map external_name (filter externally_visible flds)"
    using carried_names[OF assms(1), of "\<lambda>f. True"] by simp
  have "SchemaFromStruct lib now (Value (StructType name tm flds))
      = Inr (object_schema props (required_names flds))"
    using run req by (simp add: SchemaFromStruct_def)
  moreover have "fst ` set props = visible_names flds"
    using keys vis by (simp add: visible_names_def)
  ultimately show ?thesis
    by (metis object_schema_lookup)
qed

lemma User_fields_carry_names: "list_all carries_json_name User_fields"
  by (simp add: User_fields_def carries_json_name_def externally_visible_def json_name_def
      json_tag_def Tag_Get_def)

lemma User_fields_no_panic: "time_methods_return_fields User_fields"
  by (simp add: User_fields_def Tag_Get_def)

lemma User_visible_names:
  "visible_names User_fields
     = {''id'', ''username'', ''email'', ''age'', ''is_active'', ''created_at'', ''tags''}"
  by (simp add: User_fields_def visible_names_def external_name_def externally_visible_def
      json_name_def json_tag_def Tag_Get_def insert_commute)

lemma User_required_names:
  "required_names User_fields = [''id'', ''username'', ''email'', ''is_active'', ''created_at'']"
  by (simp add: User_fields_def required_names_def external_name_def externally_visible_def
      json_name_def json_tag_def Tag_Get_def marked_required_def marked_omitempty_def
      required_marker_def)

theorem SchemaFromStruct_properties_required_witness:
  "list_all carries_json_name User_fields
   \<and> time_methods_return_fields User_fields
   \<and> (\<exists>s props.
         SchemaFromStruct ref_lib ''2026-11-03T10:00:00Z'' (Value User) = Inr s
       \<and> map_of s ''properties'' = Some (JObject props)
       \<and> fst ` set props
           = {''id'', ''username'', ''email'', ''age'', ''is_active'', ''created_at'', ''tags''}
       \<and> map_of s ''required''
           = Some (JArray (map JString
               [''id'', ''username'', ''email'', ''is_active'', ''created_at''])))"
  using SchemaFromStruct_properties_required
    [OF User_fields_carry_names User_fields_no_panic,
     of ref_lib "''2026-11-03T10:00:00Z''" "''api.User''" NoTimeMethod]
    User_fields_carry_names User_fields_no_panic
  unfolding User_visible_names User_required_names User_def
  by auto

text \<open>
  C7, as stated, fails for a nil pointer: the schema of a nil \<open>*User\<close> is the schema of
  \<open>User\<close>, with its seven properties, and a nil pointer to a string is an error.
\<close>

theorem SafeSchemaFromStruct_nil_pointer_counterexample:
  "SafeSchemaFromStruct ref_lib time0 (NilPointer User) \<noteq> Inr empty_object_schema
   \<and> SafeSchemaFromStruct ref_lib time0 (NilPointer User)
       = SafeSchemaFromStruct ref_lib time0 (Value User)
   \<and> SafeSchemaFromStruct ref_lib time0 (NilPointer (Scalar KString))
       = Inl (ErrInvalidType ''string'')"
  by code_simp

text \<open>
  C7, as amended. \<open>SafeSchemaFromStruct(nil)\<close> and \<open>SchemaFromStruct(nil)\<close> return the schema
  \<open>{type: object, properties: {}}\<close> with no error. For a nil pointer of type \<open>*T\<close> the
  code looks at the type only: when \<open>T\<close> is a struct the result is what a value of \<open>T\<close>
  gives, and when it is not the result is the error \<open>ErrInvalidType\<close>.
\<close>

theorem SafeSchemaFromStruct_nil_cases:
  "SafeSchemaFromStruct lib now NilInterface = Inr empty_object_schema
   \<and> SchemaFromStruct lib now NilInterface = Inr empty_object_schema
   \<and> SafeSchemaFromStruct lib now (NilPointer t)
       = (if is_struct t then SafeSchemaFromStruct lib now (Value t)
          else Inl (ErrInvalidType (TypeString lib t)))"
  by (cases t) (simp_all add: SafeSchemaFromStruct_def SchemaFromStruct_def)

theorem SafeSchemaFromStruct_nil_cases_witness:
  "SafeSchemaFromStruct ref_lib time0 NilInterface
     = Inr [(''type'', JString ''object''), (''properties'', JObject [])]
   \<and> is_struct User
   \<and> SafeSchemaFromStruct ref_lib time0 (NilPointer User)
       = SafeSchemaFromStruct ref_lib time0 (Value User)
   \<and> SafeSchemaFromStruct ref_lib time0 (NilPointer (Scalar KInt))
       = Inl (ErrInvalidType ''int'')"
proof -
  have a: "is_struct User" "\<not> is_struct (Scalar KInt)"
    by (simp_all add: User_def)
  have b: "TypeString ref_lib (Scalar KInt) = ''int''"
    by code_simp
  from SafeSchemaFromStruct_nil_cases[of ref_lib time0 User]
    SafeSchemaFromStruct_nil_cases[of ref_lib time0 "Scalar KInt"] a b
  show ?thesis by (simp add: empty_object_schema_def)
qed


section \<open>Properties of registration\<close>

text \<open>
  C5, as stated, fails: a definition with both handlers set does not have exactly one of
  them, and \<open>Register\<close> accepts it.
\<close>

theorem Register_both_handlers_counterexample:
  "Handler both_handlers_def = Some ''listUsers''
   \<and> NativeHandler both_handlers_def = Some ''ginListUsers''
   \<and> Register ref_lib test_router (Some both_handlers_def)
       = (Inr (), test_router\<lparr> engine := [(''GET'', ''/api/users'')],
                               definitions := [both_handlers_def] \<rparr>)"
  by code_simp

text \<open>
  C5, as amended. \<open>Register\<close> checks, in this order: the definition is not \<open>nil\<close>; at least
  one of \<open>Handler\<close> and \<open>NativeHandler\<close> is set; the path is not empty; the upper-cased
  method is one of GET, POST, PUT, DELETE, PATCH. Each failed check returns an error of
  its own, different from the three others, and leaves the registrar as it was. A
  definition that passes them (one with both handlers set too) is handed to the engine
  and, when the engine does not panic, appended to the registered definitions.
\<close>

theorem Register_checks:
  "Register lib r None = (Inl (Returned (ErrorString ''api definition cannot be nil'')), r)
   \<and> (Handler d = None \<and> NativeHandler d = None \<longrightarrow>
        Register lib r (Some d)
          = (Inl (Returned (ErrorString (''handler cannot be nil for path: '' @ Path d))), r))
   \<and> ((Handler d \<noteq> None \<or> NativeHandler d \<noteq> None) \<and> Path d = '''' \<longrightarrow>
        Register lib r (Some d) = (Inl (Returned (ErrorString ''path cannot be empty'')), r))
   \<and> ((Handler d \<noteq> None \<or> NativeHandler d \<noteq> None) \<and> Path d \<noteq> ''''
        \<and> ToUpper lib (Method d) \<notin> set supported_methods \<longrightarrow>
        Register lib r (Some d)
          = (Inl (Returned (ErrorString (''unsupported HTTP method: '' @ Method d))), r))
   \<and> ((Handler d \<noteq> None \<or> NativeHandler d \<noteq> None) \<and> Path d \<noteq> ''''
        \<and> ToUpper lib (Method d) \<in> set supported_methods
        \<and> Handle_panic lib (engine r) (ToUpper lib (Method d)) (basePath r @ Path d) = None \<longrightarrow>
        Register lib r (Some d)
          = (Inr (), r\<lparr> engine := engine r @ [(ToUpper lib (Method d), basePath r @ Path d)],
                       definitions := definitions r @ [d] \<rparr>))
   \<and> distinct [ErrorString ''api definition cannot be nil'',
               ErrorString (''handler cannot be nil for path: '' @ p),
               ErrorString ''path cannot be empty'',
               ErrorString (''unsupported HTTP method: '' @ m)]"
  by (auto simp: Register_def Let_def)

theorem Register_checks_witness:
  "Register ref_lib test_router None
     = (Inl (Returned (ErrorString ''api definition cannot be nil'')), test_router)
   \<and> Register ref_lib test_router (Some no_handler_def)
     = (Inl (Returned (ErrorString ''handler cannot be nil for path: /test'')), test_router)
   \<and> Register ref_lib test_router (Some empty_path_def)
     = (Inl (Returned (ErrorString ''path cannot be empty'')), test_router)
   \<and> Register ref_lib test_router (Some bad_method_def)
     = (Inl (Returned (ErrorString ''unsupported HTTP method: INVALID'')), test_router)
   \<and> Register ref_lib test_router (Some upper_case_def)
     = (Inr (), test_router\<lparr> engine := [(''GET'', ''/api/users'')],
                             definitions := [upper_case_def] \<rparr>)"
proof -
  have r0: "Register ref_lib test_router None
     = (Inl (Returned (ErrorString ''api definition cannot be nil'')), test_router)"
    using Register_checks[of ref_lib test_router no_handler_def] by blast
  have a: "Handler no_handler_def = None \<and> NativeHandler no_handler_def = None"
    by code_simp
  have a': "''handler cannot be nil for path: '' @ Path no_handler_def
      = ''handler cannot be nil for path: /test''"
    by code_simp
  have r1: "Register ref_lib test_router (Some no_handler_def)
     = (Inl (Returned (ErrorString (''handler cannot be nil for path: '' @ Path no_handler_def))),
        test_router)"
    using Register_checks[of ref_lib test_router no_handler_def] a by blast
  have b: "(Handler empty_path_def \<noteq> None \<or> NativeHandler empty_path_def \<noteq> None)
      \<and> Path empty_path_def = ''''"
    by code_simp
  have r2: "Register ref_lib test_router (Some empty_path_def)
     = (Inl (Returned (ErrorString ''path cannot be empty'')), test_router)"
    using Register_checks[of ref_lib test_router empty_path_def] b by blast
  have c: "(Handler bad_method_def \<noteq> None \<or> NativeHandler bad_method_def \<noteq> None)
      \<and> Path bad_method_def \<noteq> ''''
      \<and> ToUpper ref_lib (Method bad_method_def) \<notin> set supported_methods"
    by code_simp
  have c': "''unsupported HTTP method: '' @ Method bad_method_def
      = ''unsupported HTTP method: INVALID''"
    by code_simp
  have r3: "Register ref_lib test_router (Some bad_method_def)
     = (Inl (Returned (ErrorString (''unsupported HTTP method: '' @ Method bad_method_def))),
        test_router)"
    using Register_checks[of ref_lib test_router bad_method_def] c by blast
  have d: "(Handler upper_case_def \<noteq> None \<or> NativeHandler upper_case_def \<noteq> None)
      \<and> Path upper_case_def \<noteq> ''''
      \<and> ToUpper ref_lib (Method upper_case_def) \<in> set supported_methods
      \<and> Handle_panic ref_lib (engine test_router) (ToUpper ref_lib (Method upper_case_def))
            (basePath test_router @ Path upper_case_def) = None"
    by code_simp
  have d': "engine test_router @ [(ToUpper ref_lib (Method upper_case_def),
               basePath test_router @ Path upper_case_def)] = [(''GET'', ''/api/users'')]"
    "definitions test_router @ [upper_case_def] = [upper_case_def]"
    by code_simp+
  have r4: "Register ref_lib test_router (Some upper_case_def)
     = (Inr (), test_router\<lparr> engine := engine test_router @
                                 [(ToUpper ref_lib (Method upper_case_def),
                                   basePath test_router @ Path upper_case_def)],
                             definitions := definitions test_router @ [upper_case_def] \<rparr>)"
    using Register_checks[of ref_lib test_router upper_case_def] d by blast
  show ?thesis
    unfolding r0 r1 r2 r3 r4 a' c' d' by simp
qed


section \<open>Properties of the document assembly\<close>

text \<open>A walk that does not read the clock gives the same schema at any time.\<close>

lemma walk_clock:
  "\<not> reads_clock t \<Longrightarrow> createSchemaFromGoType lib now t = createSchemaFromGoType lib now' t"
  "\<not> reads_clock_fields flds \<Longrightarrow>
     struct_fields lib now flds props required = struct_fields lib now' flds props required"
proof (induction lib now t and lib now flds props required
       rule: createSchemaFromGoType_struct_fields.induct)
  case (9 lib now fname tag ftype flds props required)
  show ?case
  proof (cases "Tag_Get tag ''json'' = '''' \<or> Tag_Get tag ''json'' = ''-''")
    case True
    with "9.prems" have "\<not> reads_clock_fields flds" by simp
    from "9.IH"(1)[OF refl True this] True show ?thesis by simp
  next
    case False
    with "9.prems" have nc: "\<not> reads_clock ftype" "\<not> reads_clock_fields flds" by auto
    have eq: "createSchemaFromGoType lib now ftype = createSchemaFromGoType lib now' ftype"
      by (rule "9.IH"(2)[OF refl False refl nc(1)])
    show ?thesis
    proof (cases "createSchemaFromGoType lib now ftype")
      case (Inl a)
      moreover from Inl eq have "createSchemaFromGoType lib now' ftype = Inl a" by simp
      ultimately show ?thesis using False by (simp add: Let_def)
    next
      case (Inr fieldSchema)
      moreover from Inr eq have "createSchemaFromGoType lib now' ftype = Inr fieldSchema"
        by simp
      ultimately show ?thesis
        using "9.IH"(3)[OF refl False refl Inr nc(2)] False by (simp add: Let_def)
    qed
  qed
next
  case (4 lib now name tm flds)
  then show ?case by (cases tm) auto
qed auto

lemma SafeSchemaFromStruct_clock:
  "\<not> reads_clock_value v \<Longrightarrow> SafeSchemaFromStruct lib now v = SafeSchemaFromStruct lib now' v"
  using walk_clock(2)[where lib=lib and now=now and now'=now' and props="[]" and required="[]"]
  by (auto simp: SafeSchemaFromStruct_def SchemaFromStruct_def reads_clock_value_def
      split: option.splits go_type.splits)

lemma build_operation_clock:
  "\<not> reads_clock_value (Request d) \<Longrightarrow> \<not> reads_clock_value (Response d) \<Longrightarrow>
   build_operation lib now d = build_operation lib now' d"
  unfolding build_operation_def
  using SafeSchemaFromStruct_clock[of "Request d" lib now now']
    SafeSchemaFromStruct_clock[of "Response d" lib now now']
  by presburger

lemma build_paths_clock:
  "list_all (\<lambda>d. \<not> reads_clock_value (Request d) \<and> \<not> reads_clock_value (Response d)) defs \<Longrightarrow>
   build_paths lib now defs paths = build_paths lib now' defs paths"
proof (induction defs arbitrary: paths)
  case Nil
  show ?case by simp
next
  case (Cons d defs)
  then have "build_operation lib now d = build_operation lib now' d"
    by (simp add: build_operation_clock)
  with Cons show ?case by (simp split: sum.splits)
qed

lemma initial_doc_cache:
  "initial_doc (r\<lparr>swaggerDoc := b, generated := g\<rparr>) = initial_doc r"
  by (simp add: initial_doc_def Let_def cong: if_cong)

lemma BuildOpenAPI_cache:
  "BuildOpenAPI lib now (r\<lparr>swaggerDoc := b, generated := g\<rparr>) = BuildOpenAPI lib now r"
  by (simp add: BuildOpenAPI_def initial_doc_cache)

lemma BuildOpenAPI_clock:
  "clock_free r \<Longrightarrow> BuildOpenAPI lib now r = BuildOpenAPI lib now' r"
  using build_paths_clock[of "definitions r" lib now "doc_Paths (initial_doc r)" now']
  by (simp add: BuildOpenAPI_def clock_free_def Let_def)

lemma GenerateSwagger_outcome:
  "GenerateSwagger lib now r =
     (case outcome lib now r of
        Inl err \<Rightarrow> (Inl err, r)
      | Inr (doc, data) \<Rightarrow> (Inr doc, r\<lparr>swaggerDoc := Some data, generated := True\<rparr>))"
  by (simp add: GenerateSwagger_def outcome_def Let_def split: sum.splits)

lemma outcome_cache:
  "outcome lib now (r\<lparr>swaggerDoc := b, generated := g\<rparr>) = outcome lib now r"
  by (simp add: outcome_def BuildOpenAPI_cache cong: sum.case_cong if_cong)

lemma outcome_clock:
  "clock_free r \<Longrightarrow> outcome lib now r = outcome lib now' r"
  by (simp add: outcome_def BuildOpenAPI_clock[of r lib now now'])


text \<open>How the synthesis of a schema fails inside \<open>BuildOpenAPI\<close>.\<close>

lemma build_operation_Inl:
  "build_operation lib now d = Inl err \<Longrightarrow>
     (\<exists>e. SafeSchemaFromStruct lib now (Request d) = Inl e
           \<and> err = WrapError ''failed to generate request schema'' e)
   \<or> (\<exists>e. SafeSchemaFromStruct lib now (Response d) = Inl e
           \<and> err = WrapError ''failed to generate response schema'' e)"
  unfolding build_operation_def Let_def
  by (simp split: sum.splits if_splits)

lemma Safe_schema_of_nil_interface:
  "SafeSchemaFromStruct lib now NilInterface = Inr empty_object_schema"
  by (simp add: SafeSchemaFromStruct_def)

lemma build_operation_fails:
  "isl (SafeSchemaFromStruct lib now (Request d)) \<or> isl (SafeSchemaFromStruct lib now (Response d))
   \<Longrightarrow> isl (build_operation lib now d)"
  unfolding build_operation_def Let_def
  by (auto simp: Safe_schema_of_nil_interface split: sum.splits if_splits)

lemma build_paths_fails:
  "list_ex (\<lambda>d. isl (SafeSchemaFromStruct lib now (Request d))
               \<or> isl (SafeSchemaFromStruct lib now (Response d))) defs \<Longrightarrow>
   \<exists>d e. d \<in> set defs
     \<and> ((SafeSchemaFromStruct lib now (Request d) = Inl e
          \<and> build_paths lib now defs paths
              = Inl (WrapError ''failed to generate request schema'' e))
        \<or> (SafeSchemaFromStruct lib now (Response d) = Inl e
          \<and> build_paths lib now defs paths
              = Inl (WrapError ''failed to generate response schema'' e)))"
proof (induction defs arbitrary: paths)
  case Nil
  then show ?case by simp
next
  case (Cons d defs)
  show ?case
  proof (cases "build_operation lib now d")
    case (Inl err)
    then have bp: "build_paths lib now (d # defs) paths = Inl err"
      by (simp add: Let_def)
    from build_operation_Inl[OF Inl] show ?thesis
      unfolding bp by auto
  next
    case (Inr operation)
    then have "\<not> isl (build_operation lib now d)" by simp
    with build_operation_fails[of lib now d]
    have "\<not> (isl (SafeSchemaFromStruct lib now (Request d))
              \<or> isl (SafeSchemaFromStruct lib now (Response d)))" by blast
    with Cons.prems have ex: "list_ex (\<lambda>d. isl (SafeSchemaFromStruct lib now (Request d))
               \<or> isl (SafeSchemaFromStruct lib now (Response d))) defs" by simp
    define paths' where "paths' = AList.update (Path d)
        (set_operation (Method d) operation
           (case map_of paths (Path d) of Some item \<Rightarrow> item | None \<Rightarrow> zero_PathItem)) paths"
    have bp: "build_paths lib now (d # defs) paths = build_paths lib now defs paths'"
      using Inr by (simp add: Let_def paths'_def)
    from Cons.IH[OF ex, of paths'] show ?thesis
      unfolding bp by auto
  qed
qed

text \<open>
  C9. When the title and the version are set and the synthesis of a schema fails for the
  request or the response type of some registered definition, \<open>GenerateSwagger\<close> returns an
  error that wraps the synthesis error of a registered definition (the first that fails),
  and the registrar is as it was: neither the cached bytes nor the flag \<open>generated\<close> is
  written.
\<close>

theorem GenerateSwagger_schema_failure:
  assumes "title r \<noteq> ''''" and "version r \<noteq> ''''"
    and "list_ex (\<lambda>d. isl (SafeSchemaFromStruct lib now (Request d))
                   \<or> isl (SafeSchemaFromStruct lib now (Response d))) (definitions r)"
  shows "\<exists>d e. d \<in> set (definitions r)
     \<and> ((SafeSchemaFromStruct lib now (Request d) = Inl e
          \<and> GenerateSwagger lib now r
              = (Inl (WrapError ''failed to build OpenAPI document''
                       (WrapError ''failed to generate request schema'' e)), r))
        \<or> (SafeSchemaFromStruct lib now (Response d) = Inl e
          \<and> GenerateSwagger lib now r
              = (Inl (WrapError ''failed to build OpenAPI document''
                       (WrapError ''failed to generate response schema'' e)), r)))"
proof -
  from build_paths_fails[OF assms(3), of "doc_Paths (initial_doc r)"]
  obtain d e where d: "d \<in> set (definitions r)"
    and c: "(SafeSchemaFromStruct lib now (Request d) = Inl e
          \<and> build_paths lib now (definitions r) (doc_Paths (initial_doc r))
              = Inl (WrapError ''failed to generate request schema'' e))
        \<or> (SafeSchemaFromStruct lib now (Response d) = Inl e
          \<and> build_paths lib now (definitions r) (doc_Paths (initial_doc r))
              = Inl (WrapError ''failed to generate response schema'' e))"
    by blast
  from c show ?thesis
  proof
    assume a: "SafeSchemaFromStruct lib now (Request d) = Inl e
          \<and> build_paths lib now (definitions r) (doc_Paths (initial_doc r))
              = Inl (WrapError ''failed to generate request schema'' e)"
    then have "GenerateSwagger lib now r
              = (Inl (WrapError ''failed to build OpenAPI document''
                       (WrapError ''failed to generate request schema'' e)), r)"
      using assms(1,2) by (simp add: GenerateSwagger_def BuildOpenAPI_def Let_def)
    with a d show ?thesis by blast
  next
    assume a: "SafeSchemaFromStruct lib now (Response d) = Inl e
          \<and> build_paths lib now (definitions r) (doc_Paths (initial_doc r))
              = Inl (WrapError ''failed to generate response schema'' e)"
    then have "GenerateSwagger lib now r
              = (Inl (WrapError ''failed to build OpenAPI document''
                       (WrapError ''failed to generate response schema'' e)), r)"
      using assms(1,2) by (simp add: GenerateSwagger_def BuildOpenAPI_def Let_def)
    with a d show ?thesis by blast
  qed
qed

text \<open>
  C2, as amended. When no registered request or response type makes the walk read the
  clock (no field of type \<open>time.Time\<close> is reached), or when the two calls read the same
  time, a second call of \<open>GenerateSwagger\<close> on the registrar the first one left returns the
  same result and leaves the same registrar, with the same cached bytes.
\<close>

theorem GenerateSwagger_repeatable:
  assumes "clock_free r \<or> now' = now"
  shows "GenerateSwagger lib now' (snd (GenerateSwagger lib now r)) = GenerateSwagger lib now r"
proof -
  have oc: "outcome lib now' r = outcome lib now r"
    using assms outcome_clock[of r lib now' now] by auto
  show ?thesis
  proof (cases "outcome lib now r")
    case (Inl err)
    then show ?thesis using oc by (simp add: GenerateSwagger_outcome)
  next
    case (Inr p)
    obtain doc data where p: "p = (doc, data)" by (cases p)
    have s: "snd (GenerateSwagger lib now r) = r\<lparr>swaggerDoc := Some data, generated := True\<rparr>"
      using Inr p by (simp add: GenerateSwagger_outcome)
    have "outcome lib now' (r\<lparr>swaggerDoc := Some data, generated := True\<rparr>) = Inr (doc, data)"
      using oc Inr p by (simp add: outcome_cache)
    then show ?thesis
      unfolding s using Inr p by (simp add: GenerateSwagger_outcome)
  qed
qed

text \<open>
  What \<open>BuildOpenAPI\<close> puts into the operation of a definition: the responses 400 and 500,
  the response 200 exactly when the definition has a response type, and neither the
  security requirements nor the operation identifier of the definition.
\<close>

lemma build_operation_fields:
  assumes "build_operation lib now d = Inr op"
  shows "map_of (op_Responses op) ''400'' \<noteq> None"
    and "map_of (op_Responses op) ''500'' \<noteq> None"
    and "(map_of (op_Responses op) ''200'' \<noteq> None) = (Response d \<noteq> NilInterface)"
    and "map_of (op_Responses op) ''401'' = None"
    and "map_of (op_Responses op) ''403'' = None"
    and "op_Security op = []"
    and "op_OperationID op = ''''"
    and "op_Tags op = Tags d"
  using assms unfolding build_operation_def Let_def
  by (auto simp: update_conv' split: sum.splits if_splits)

text \<open>
  What the loop of \<open>GenerateSwagger\<close> then does to such an operation: with no security
  requirement in it, 401 and 403 are not added, and the identifier is generated.
\<close>

lemma add_default_responses_unsecured:
  assumes "op_Security op = []" and "op_OperationID op = ''''"
    and "map_of (op_Responses op) ''400'' \<noteq> None"
    and "map_of (op_Responses op) ''500'' \<noteq> None"
  shows "op_Responses (add_default_responses lib path op) = op_Responses op"
    and "op_OperationID (add_default_responses lib path op) = generateOperationID lib path op"
  using assms unfolding add_default_responses_def Let_def generateOperationID_def
  by auto

text \<open>A method that is none of the five upper-case names selects no case of the \<open>switch\<close>.\<close>

lemma set_operation_other_method:
  "method \<notin> set supported_methods \<Longrightarrow> set_operation method operation pathItem = pathItem"
  by (simp add: set_operation_def supported_methods_def)


section \<open>The document at concrete inputs\<close>

text \<open>
  C1 at a definition that declares a security requirement: the operation of the document
  has the responses 400 and 500 only, and no security requirement, because
  \<open>BuildOpenAPI\<close> does not copy \<open>Security\<close> into the operation.
\<close>

theorem secured_operation_without_401_403:
  "Security secured_def = [[(''bearerAuth'', [])]]
   \<and> fst (Register ref_lib test_router (Some secured_def)) = Inr ()
   \<and> (case fst (GenerateSwagger ref_lib time0 (registered secured_def)) of
        Inl err \<Rightarrow> False
      | Inr doc \<Rightarrow>
          (case map_of (doc_Paths doc) ''/admin'' of
             None \<Rightarrow> False
           | Some item \<Rightarrow>
               (case Get item of
                  None \<Rightarrow> False
                | Some op \<Rightarrow> map fst (op_Responses op) = [''400'', ''500'']
                            \<and> op_Security op = [])))"
  by code_simp

text \<open>
  C4 at a definition with the explicit identifier \<open>listUsers\<close>: the operation of the
  document has the generated identifier \<open>users_users\<close>, because \<open>BuildOpenAPI\<close> does not
  copy \<open>OperationID\<close> into the operation.
\<close>

theorem explicit_operation_id_replaced:
  "OperationID identified_def = ''listUsers''
   \<and> fst (Register ref_lib test_router (Some identified_def)) = Inr ()
   \<and> (case fst (GenerateSwagger ref_lib time0 (registered identified_def)) of
        Inl err \<Rightarrow> False
      | Inr doc \<Rightarrow>
          (case map_of (doc_Paths doc) ''/users'' of
             None \<Rightarrow> False
           | Some item \<Rightarrow>
               (case Get item of
                  None \<Rightarrow> False
                | Some op \<Rightarrow> op_OperationID op = ''users_users'')))"
  by code_simp

text \<open>
  C6 at the method \<open>get\<close>: \<open>Register\<close> accepts the definition and gives the engine the
  method \<open>GET\<close>, but keeps the method as it was written, and the \<open>switch\<close> of
  \<open>BuildOpenAPI\<close> then matches none of its cases: the path entry of the document has no
  operation, where the same definition with \<open>GET\<close> has one under \<open>get\<close>.
\<close>

theorem lower_case_method_not_in_document:
  "Register ref_lib test_router (Some lower_case_def)
     = (Inr (), test_router\<lparr> engine := [(''GET'', ''/api/users'')],
                             definitions := [lower_case_def] \<rparr>)
   \<and> Method lower_case_def = ''get''
   \<and> (case fst (GenerateSwagger ref_lib time0 (registered lower_case_def)) of
        Inl err \<Rightarrow> False
      | Inr doc \<Rightarrow> map_of (doc_Paths doc) ''/users'' = Some zero_PathItem)
   \<and> (case fst (GenerateSwagger ref_lib time0 (registered upper_case_def)) of
        Inl err \<Rightarrow> False
      | Inr doc \<Rightarrow>
          (case map_of (doc_Paths doc) ''/users'' of
             None \<Rightarrow> False
           | Some item \<Rightarrow> Get item \<noteq> None))"
  by code_simp

text \<open>
  C2, as stated, fails: the registrar holds one definition whose response type has a field
  of type \<open>time.Time\<close>; two calls one second apart, the second on the registrar the first
  one left (the same definitions, information, base path and security schemes), cache
  different bytes.
\<close>

theorem GenerateSwagger_bytes_differ_counterexample:
  "(snd (GenerateSwagger ref_lib time0 (registered event_def)))
       \<lparr>swaggerDoc := None, generated := False\<rparr> = registered event_def
   \<and> swaggerDoc (snd (GenerateSwagger ref_lib time0 (registered event_def))) \<noteq> None
   \<and> swaggerDoc (snd (GenerateSwagger ref_lib time1
         (snd (GenerateSwagger ref_lib time0 (registered event_def)))))
      \<noteq> swaggerDoc (snd (GenerateSwagger ref_lib time0 (registered event_def)))"
  by code_simp


theorem GenerateSwagger_schema_failure_witness:
  "title (registered bad_request_def) \<noteq> ''''
   \<and> version (registered bad_request_def) \<noteq> ''''
   \<and> list_ex (\<lambda>d. isl (SafeSchemaFromStruct ref_lib time0 (Request d))
                 \<or> isl (SafeSchemaFromStruct ref_lib time0 (Response d)))
        (definitions (registered bad_request_def))
   \<and> GenerateSwagger ref_lib time0 (registered bad_request_def)
       = (Inl (WrapError ''failed to build OpenAPI document''
                (WrapError ''failed to generate request schema'' (ErrInvalidType ''string''))),
          registered bad_request_def)
   \<and> swaggerDoc (snd (GenerateSwagger ref_lib time0 (registered bad_request_def))) = None
   \<and> \<not> generated (snd (GenerateSwagger ref_lib time0 (registered bad_request_def)))"
proof -
  have t: "title (registered bad_request_def) \<noteq> ''''"
    and v: "version (registered bad_request_def) \<noteq> ''''"
    by code_simp+
  have f: "list_ex (\<lambda>d. isl (SafeSchemaFromStruct ref_lib time0 (Request d))
                 \<or> isl (SafeSchemaFromStruct ref_lib time0 (Response d)))
        (definitions (registered bad_request_def))"
    by code_simp
  have defs: "definitions (registered bad_request_def) = [bad_request_def]"
    by code_simp
  have req: "SafeSchemaFromStruct ref_lib time0 (Request bad_request_def)
               = Inl (ErrInvalidType ''string'')"
    by code_simp
  have resp: "SafeSchemaFromStruct ref_lib time0 (Response bad_request_def)
               = Inr empty_object_schema"
    by code_simp
  have cache: "swaggerDoc (registered bad_request_def) = None"
    "\<not> generated (registered bad_request_def)"
    by code_simp+
  from GenerateSwagger_schema_failure[OF t v f]
  have "GenerateSwagger ref_lib time0 (registered bad_request_def)
       = (Inl (WrapError ''failed to build OpenAPI document''
                (WrapError ''failed to generate request schema'' (ErrInvalidType ''string''))),
          registered bad_request_def)"
    unfolding defs using req resp by auto
  with t v f cache show ?thesis by simp
qed

theorem GenerateSwagger_repeatable_witness:
  "clock_free (registered upper_case_def)
   \<and> GenerateSwagger ref_lib time1 (snd (GenerateSwagger ref_lib time0 (registered upper_case_def)))
       = GenerateSwagger ref_lib time0 (registered upper_case_def)
   \<and> swaggerDoc (snd (GenerateSwagger ref_lib time0 (registered upper_case_def))) \<noteq> None
   \<and> GenerateSwagger ref_lib time0 (snd (GenerateSwagger ref_lib time0 (registered event_def)))
       = GenerateSwagger ref_lib time0 (registered event_def)"
proof -
  have cf: "clock_free (registered upper_case_def)"
    by code_simp
  have some: "swaggerDoc (snd (GenerateSwagger ref_lib time0 (registered upper_case_def))) \<noteq> None"
    by code_simp
  from GenerateSwagger_repeatable[of "registered upper_case_def" time1 time0 ref_lib]
    GenerateSwagger_repeatable[of "registered event_def" time0 time0 ref_lib] cf some
  show ?thesis by simp
qed


end
